theory Spec2Isabelle
  imports Main
begin

section \<open>The turn controller of the Gemini stream hook\<close>

text \<open>
  A shallow embedding of \<^verbatim>\<open>useGeminiStream\<close>, the React hook that accepts a query,
  queues input typed while a turn is active, consumes the event stream of the model
  backend, batches the tool calls it discovers and re-enters itself with their responses.

  The hook is a function that React calls once per render. Each render binds
  \<^verbatim>\<open>messageQueue\<close>, \<^verbatim>\<open>isResponding\<close> and \<^verbatim>\<open>toolCalls\<close> to constants, and the
  callbacks made in that render (\<^verbatim>\<open>submitQuery\<close>, the key handler, the completion
  effect) read those constants for as long as they run: a state setter changes what the
  next render binds, never what a render that has run has bound. What a callback writes
  goes to a ref (read back at once) or to a state setter (seen by the next render).
  The model keeps both apart: a \<open>render\<close> is what a callback reads of the React state,
  a \<open>hook_state\<close> is what it reads and writes live.
\<close>

subsection \<open>Strings\<close>

text \<open>
  \<^verbatim>\<open>query.split('\n')\<close> cuts at every line feed and keeps empty pieces; the empty
  string gives one empty piece. \<^verbatim>\<open>q.trim()\<close> strips white space and line terminators
  from both ends; of the code units that a \<open>char\<close> can hold these are tab, line feed,
  vertical tab, form feed, carriage return, space and no-break space.
\<close>

definition isWhiteSpace :: "char \<Rightarrow> bool" where
  "isWhiteSpace c \<longleftrightarrow> c \<in> set [CHR 0x09, CHR 0x0A, CHR 0x0B, CHR 0x0C, CHR 0x0D, CHR 0x20, CHR 0xA0]"

definition trim :: "string \<Rightarrow> string" where
  "trim s = rev (dropWhile isWhiteSpace (rev (dropWhile isWhiteSpace s)))"

fun split_newline :: "string \<Rightarrow> string list" where
  "split_newline [] = [[]]"
| "split_newline (c # cs) =
     (if c = CHR 0x0A then [] # split_newline cs
      else (c # hd (split_newline cs)) # tl (split_newline cs))"

text \<open>
  \<^verbatim>\<open>s.substring(a, b)\<close> clamps both indices to the string and swaps them when they are
  the wrong way round; \<^verbatim>\<open>s.substring(a)\<close> runs to the end.
\<close>

definition clamp_index :: "string \<Rightarrow> int \<Rightarrow> nat" where
  "clamp_index s i = (if i < 0 then 0 else min (nat i) (length s))"

definition substring :: "string \<Rightarrow> int \<Rightarrow> int \<Rightarrow> string" where
  "substring s a b =
     (let x = clamp_index s a; y = clamp_index s b
      in take (max x y - min x y) (drop (min x y) s))"

definition substring_from :: "string \<Rightarrow> int \<Rightarrow> string" where
  "substring_from s a = drop (clamp_index s a) s"

fun digits_of :: "nat \<Rightarrow> string" where
  "digits_of n =
     (if n < 10 then [char_of (48 + n)]
      else digits_of (n div 10) @ [char_of (48 + n mod 10)])"

subsection \<open>Queries and stream events\<close>

text \<open>
  A \<^verbatim>\<open>PartListUnion\<close> is a string, a part object, or an array of strings and part
  objects. Part objects belong to the backend's library and are opaque here.
\<close>

datatype part = Part string

datatype part_union = PartString string | PartObject part

datatype part_list_union = Single part_union | Many "part_union list"

definition mergePartListUnions :: "part_list_union list \<Rightarrow> part_list_union" where
  "mergePartListUnions list =
     Many (concat (map (\<lambda>item. case item of Many xs \<Rightarrow> xs | Single x \<Rightarrow> [x]) list))"

record ToolCallRequestInfo =
  callId :: string
  name :: string
  args :: string
  isClientInitiated :: bool

record ChatCompressionInfo =
  originalTokenCount :: "nat option"
  newTokenCount :: "nat option"

type_synonym ThoughtSummary = "string \<times> string"

datatype gemini_event =
    ThoughtEvent ThoughtSummary
  | ContentEvent string
  | ToolCallRequestEvent ToolCallRequestInfo
  | UserCancelledEvent
  | ErrorEvent string
  | ChatCompressedEvent "ChatCompressionInfo option"
  | UsageMetadataEvent nat
  | ToolCallConfirmationEvent
  | ToolCallResponseEvent

text \<open>What a stream, the memory refresh or the backend call can throw.\<close>

datatype thrown =
    UnauthorizedError string
  | NodeError string string
  | OtherError string

text \<open>
  An async iterable of events: the events it yields, then its end, which is either a
  normal end or an exception thrown out of the \<^verbatim>\<open>for await\<close> loop.
\<close>

record event_stream =
  events :: "gemini_event list"
  failure :: "thrown option"

datatype StreamProcessingStatus = Completed | UserCancelled | Error

subsection \<open>Tracked tool calls and the derived streaming state\<close>

datatype tool_status =
  validating | scheduled | awaiting_approval | executing | success | error | cancelled

text \<open>
  The tool scheduler owns the tracked calls; the hook reads the status, the request's
  call id, the response parts and the flag \<^verbatim>\<open>responseSubmittedToGemini\<close>, which
  is optional in the source and read only through \<^verbatim>\<open>!\<close>, so that an absent flag is
  \<open>False\<close>.
\<close>

record TrackedToolCall =
  status :: tool_status
  request :: ToolCallRequestInfo
  responseParts :: part_list_union
  responseSubmittedToGemini :: bool

datatype StreamingState = Idle | Responding | WaitingForConfirmation

definition completedAndUnsubmitted :: "TrackedToolCall \<Rightarrow> bool" where
  "completedAndUnsubmitted tc \<longleftrightarrow>
     (status tc = success \<or> status tc = error \<or> status tc = cancelled)
     \<and> \<not> responseSubmittedToGemini tc"

definition streamingState :: "bool \<Rightarrow> TrackedToolCall list \<Rightarrow> StreamingState" where
  "streamingState isResponding toolCalls =
     (if list_ex (\<lambda>tc. status tc = awaiting_approval) toolCalls
      then WaitingForConfirmation
      else if isResponding
           \<or> list_ex (\<lambda>tc. status tc = executing
                        \<or> status tc = scheduled
                        \<or> status tc = validating
                        \<or> ((status tc = success \<or> status tc = error \<or> status tc = cancelled)
                            \<and> \<not> responseSubmittedToGemini tc)) toolCalls
      then Responding
      else Idle)"

subsection \<open>History items\<close>

datatype ToolCallStatus =
  ToolPending | ToolCanceled | ToolConfirming | ToolExecuting | ToolSuccess | ToolError

record IndividualToolCallDisplay =
  displayCallId :: string
  displayName :: string
  displayStatus :: ToolCallStatus

datatype item_type = USER | GEMINI | GEMINI_CONTENT | INFO | ERROR | TOOL_GROUP

datatype HistoryItem =
    TextItem item_type string
  | ToolGroupItem "IndividualToolCallDisplay list"

fun itemType :: "HistoryItem \<Rightarrow> item_type" where
  "itemType (TextItem t _) = t"
| "itemType (ToolGroupItem _) = TOOL_GROUP"

text \<open>\<^verbatim>\<open>pendingHistoryItemRef.current?.type\<close>: undefined when nothing is pending.\<close>

definition pendingType :: "HistoryItem option \<Rightarrow> item_type option" where
  "pendingType p = map_option itemType p"

subsection \<open>What the hook is given, reads and writes\<close>

text \<open>
  The hook's parameters and imported helpers whose code is not part of this unit. They
  are pure as far as the hook uses them, and every function below takes them as \<open>d\<close>.
\<close>

record deps =
  findLastSafeSplitPoint :: "string \<Rightarrow> int"
  parseAndFormatApiError :: "string \<Rightarrow> string \<Rightarrow> string"
  authType :: string
  getModel :: string
  getErrorMessage :: "thrown \<Rightarrow> string"
  shellModeActive :: bool
  isAtCommand :: "string \<Rightarrow> bool"

text \<open>
  The constants of one render, as the callbacks made in that render see them. The
  derived streaming state is computed from them and stored nowhere.
\<close>

record render =
  messageQueue :: "string list"
  isResponding :: bool
  toolCalls :: "TrackedToolCall list"

definition renderStreamingState :: "render \<Rightarrow> StreamingState" where
  "renderStreamingState r = streamingState (isResponding r) (toolCalls r)"

text \<open>
  The live state. \<open>queueState\<close>, \<open>respondingState\<close> and \<open>thoughtState\<close> are the React
  states with every update made so far applied (the next render's constants); the refs
  are read back at once. An \<^verbatim>\<open>AbortController\<close> is its index in \<open>abortSignals\<close>, which
  holds the \<^verbatim>\<open>aborted\<close> bit of every controller made so far. \<open>clock\<close> is what
  \<^verbatim>\<open>Date.now()\<close> returns.
\<close>

record hook_state =
  queueState :: "string list"
  respondingState :: bool
  thoughtState :: "ThoughtSummary option"
  turnCancelledRef :: bool
  abortControllerRef :: "nat option"
  abortSignals :: "bool list"
  pendingHistoryItemRef :: "HistoryItem option"
  history :: "(HistoryItem \<times> nat) list"
  scheduledBatches :: "(ToolCallRequestInfo list \<times> nat) list"
  submittedMarks :: "string list list"
  openedStreams :: "(part_list_union \<times> nat) list"
  usageLog :: "nat list"
  turnsStarted :: nat
  authErrors :: nat
  clock :: nat

text \<open>
  Modelled from the spec: the history store, the tool scheduler, the backend client
  and the session statistics are not part of this unit. The spec gives them as
  \<^verbatim>\<open>addItem(entry, timestamp)\<close> (append-only, ordered by call sequence),
  \<^verbatim>\<open>schedule(requests, abortSignal)\<close>, \<^verbatim>\<open>markSubmitted(callIds)\<close> and
  \<^verbatim>\<open>openStream(content, abortSignal)\<close>, and as sinks without a result. The state
  logs the calls in order: \<open>history\<close> the \<^verbatim>\<open>addItem\<close> calls, \<open>scheduledBatches\<close> the
  \<^verbatim>\<open>scheduleToolCalls\<close> calls, \<open>submittedMarks\<close> the \<^verbatim>\<open>markToolsAsSubmitted\<close>
  calls, \<open>openedStreams\<close> the \<^verbatim>\<open>sendMessageStream\<close> calls, \<open>usageLog\<close> the
  \<^verbatim>\<open>addUsage\<close> calls, \<open>turnsStarted\<close> and \<open>authErrors\<close> the number of
  \<^verbatim>\<open>startNewTurn\<close> and \<^verbatim>\<open>onAuthError\<close> calls. Debug and telemetry sinks are left
  out.
\<close>

definition addItem :: "HistoryItem \<Rightarrow> nat \<Rightarrow> hook_state \<Rightarrow> hook_state" where
  "addItem item timestamp st = st\<lparr>history := history st @ [(item, timestamp)]\<rparr>"

text \<open>
  Modelled from the spec: \<^verbatim>\<open>useStateAndRef\<close> is not part of this unit. The pending
  display state "holds the not-yet-committed, currently-streaming history entry" and
  "at most one exists at a time": the setter replaces the entry and the ref shows the
  new one at once.
\<close>

definition setPendingHistoryItem :: "HistoryItem option \<Rightarrow> hook_state \<Rightarrow> hook_state" where
  "setPendingHistoryItem item st = st\<lparr>pendingHistoryItemRef := item\<rparr>"

definition scheduleToolCalls :: "ToolCallRequestInfo list \<Rightarrow> nat \<Rightarrow> hook_state \<Rightarrow> hook_state" where
  "scheduleToolCalls toolCallRequests signal st =
     st\<lparr>scheduledBatches := scheduledBatches st @ [(toolCallRequests, signal)]\<rparr>"

definition markToolsAsSubmitted :: "string list \<Rightarrow> hook_state \<Rightarrow> hook_state" where
  "markToolsAsSubmitted callIds st = st\<lparr>submittedMarks := submittedMarks st @ [callIds]\<rparr>"

definition newAbortController :: "hook_state \<Rightarrow> nat \<times> hook_state" where
  "newAbortController st =
     (length (abortSignals st),
      st\<lparr>abortSignals := abortSignals st @ [False],
         abortControllerRef := Some (length (abortSignals st))\<rparr>)"

text \<open>\<^verbatim>\<open>abortControllerRef.current?.abort()\<close>: nothing when the ref holds null.\<close>

definition abortCurrent :: "hook_state \<Rightarrow> hook_state" where
  "abortCurrent st =
     (case abortControllerRef st of
        None \<Rightarrow> st
      | Some c \<Rightarrow> st\<lparr>abortSignals := (abortSignals st)[c := True]\<rparr>)"

subsection \<open>The escape key\<close>

definition useInput :: "StreamingState \<Rightarrow> bool \<Rightarrow> hook_state \<Rightarrow> hook_state" where
  "useInput streamingState_now escape st =
     (if streamingState_now = Responding \<and> escape then
        if turnCancelledRef st then st
        else
          let st1 = abortCurrent (st\<lparr>turnCancelledRef := True\<rparr>);
              st2 = (case pendingHistoryItemRef st1 of
                       Some item \<Rightarrow> addItem item (clock st1) st1
                     | None \<Rightarrow> st1);
              st3 = addItem (TextItem INFO ''Request cancelled.'') (clock st2) st2;
              st4 = setPendingHistoryItem None st3
          in st4\<lparr>respondingState := False\<rparr>
      else st)"

subsection \<open>Stream event handlers\<close>

text \<open>
  \<open>handleContentEvent\<close> returns the buffer that the loop carries to the next
  \<^verbatim>\<open>Content\<close> event. The type written into the pending item and into the flushed
  prefix is read back from the ref, which is never empty at that point.
\<close>

definition currentPendingType :: "hook_state \<Rightarrow> item_type" where
  "currentPendingType st =
     (case pendingHistoryItemRef st of Some item \<Rightarrow> itemType item | None \<Rightarrow> GEMINI)"

definition handleContentEvent ::
  "deps \<Rightarrow> string \<Rightarrow> string \<Rightarrow> nat \<Rightarrow> hook_state \<Rightarrow> string \<times> hook_state" where
  "handleContentEvent d eventValue currentGeminiMessageBuffer userMessageTimestamp st =
     (if turnCancelledRef st then ([], st)
      else
        let (newGeminiMessageBuffer, st1) =
              (if pendingType (pendingHistoryItemRef st) \<noteq> Some GEMINI
                  \<and> pendingType (pendingHistoryItemRef st) \<noteq> Some GEMINI_CONTENT
               then (eventValue,
                     setPendingHistoryItem (Some (TextItem GEMINI []))
                       (case pendingHistoryItemRef st of
                          Some item \<Rightarrow> addItem item userMessageTimestamp st
                        | None \<Rightarrow> st))
               else (currentGeminiMessageBuffer @ eventValue, st));
            splitPoint = findLastSafeSplitPoint d newGeminiMessageBuffer
        in if splitPoint = int (length newGeminiMessageBuffer)
           then (newGeminiMessageBuffer,
                 setPendingHistoryItem
                   (Some (TextItem (currentPendingType st1) newGeminiMessageBuffer)) st1)
           else
             let beforeText = substring newGeminiMessageBuffer 0 splitPoint;
                 afterText = substring_from newGeminiMessageBuffer splitPoint
             in (afterText,
                 setPendingHistoryItem (Some (TextItem GEMINI_CONTENT afterText))
                   (addItem (TextItem (currentPendingType st1) beforeText)
                      userMessageTimestamp st1)))"

definition cancelTool :: "IndividualToolCallDisplay \<Rightarrow> IndividualToolCallDisplay" where
  "cancelTool tool =
     (if displayStatus tool = ToolPending
         \<or> displayStatus tool = ToolConfirming
         \<or> displayStatus tool = ToolExecuting
      then tool\<lparr>displayStatus := ToolCanceled\<rparr>
      else tool)"

definition handleUserCancelledEvent :: "nat \<Rightarrow> hook_state \<Rightarrow> hook_state" where
  "handleUserCancelledEvent userMessageTimestamp st =
     (if turnCancelledRef st then st
      else
        let st1 = (case pendingHistoryItemRef st of
                     None \<Rightarrow> st
                   | Some (ToolGroupItem tools) \<Rightarrow>
                       setPendingHistoryItem None
                         (addItem (ToolGroupItem (map cancelTool tools)) userMessageTimestamp st)
                   | Some item \<Rightarrow>
                       setPendingHistoryItem None (addItem item userMessageTimestamp st));
            st2 = addItem (TextItem INFO ''User cancelled the request.'') userMessageTimestamp st1
        in st2\<lparr>respondingState := False\<rparr>)"

definition handleErrorEvent :: "deps \<Rightarrow> string \<Rightarrow> nat \<Rightarrow> hook_state \<Rightarrow> hook_state" where
  "handleErrorEvent d eventError userMessageTimestamp st =
     (let st1 = (case pendingHistoryItemRef st of
                   Some item \<Rightarrow> setPendingHistoryItem None (addItem item userMessageTimestamp st)
                 | None \<Rightarrow> st)
      in addItem (TextItem ERROR (parseAndFormatApiError d eventError (authType d)))
           userMessageTimestamp st1)"

definition tokenCountText :: "ChatCompressionInfo option \<Rightarrow> (ChatCompressionInfo \<Rightarrow> nat option) \<Rightarrow> string" where
  "tokenCountText eventValue field =
     (case Option.bind eventValue field of Some n \<Rightarrow> digits_of n | None \<Rightarrow> ''unknown'')"

definition handleChatCompressionEvent ::
  "deps \<Rightarrow> ChatCompressionInfo option \<Rightarrow> hook_state \<Rightarrow> hook_state" where
  "handleChatCompressionEvent d eventValue st =
     addItem
       (TextItem INFO
          (''IMPORTANT: This conversation approached the input token limit for '' @ getModel d
           @ ''. '' @ ''A compressed context will be sent for future messages (compressed from: ''
           @ tokenCountText eventValue originalTokenCount @ '' to ''
           @ tokenCountText eventValue newTokenCount @ '' tokens).''))
       (clock st) st"

subsection \<open>The stream event processor\<close>

text \<open>
  One turn of the \<^verbatim>\<open>for await\<close> loop: the loop's two locals, the text buffer and the
  list of tool call requests, travel with the state.
\<close>

fun handleEvent ::
  "deps \<Rightarrow> nat \<Rightarrow> gemini_event \<Rightarrow> string \<times> ToolCallRequestInfo list \<times> hook_state
     \<Rightarrow> string \<times> ToolCallRequestInfo list \<times> hook_state" where
  "handleEvent d ts (ThoughtEvent v) (buf, reqs, st) = (buf, reqs, st\<lparr>thoughtState := Some v\<rparr>)"
| "handleEvent d ts (ContentEvent v) (buf, reqs, st) =
     (case handleContentEvent d v buf ts st of (buf', st') \<Rightarrow> (buf', reqs, st'))"
| "handleEvent d ts (ToolCallRequestEvent v) (buf, reqs, st) = (buf, reqs @ [v], st)"
| "handleEvent d ts UserCancelledEvent (buf, reqs, st) = (buf, reqs, handleUserCancelledEvent ts st)"
| "handleEvent d ts (ErrorEvent v) (buf, reqs, st) = (buf, reqs, handleErrorEvent d v ts st)"
| "handleEvent d ts (ChatCompressedEvent v) (buf, reqs, st) =
     (buf, reqs, handleChatCompressionEvent d v st)"
| "handleEvent d ts (UsageMetadataEvent v) (buf, reqs, st) =
     (buf, reqs, st\<lparr>usageLog := usageLog st @ [v]\<rparr>)"
| "handleEvent d ts ToolCallConfirmationEvent (buf, reqs, st) = (buf, reqs, st)"
| "handleEvent d ts ToolCallResponseEvent (buf, reqs, st) = (buf, reqs, st)"

fun streamLoop ::
  "deps \<Rightarrow> nat \<Rightarrow> gemini_event list \<Rightarrow> string \<times> ToolCallRequestInfo list \<times> hook_state
     \<Rightarrow> string \<times> ToolCallRequestInfo list \<times> hook_state" where
  "streamLoop d ts [] acc = acc"
| "streamLoop d ts (ev # evs) acc = streamLoop d ts evs (handleEvent d ts ev acc)"

text \<open>
  The processor returns \<open>Inr Completed\<close> when the stream ends, after handing the
  accumulated requests to the scheduler; an exception out of the stream leaves the
  function at once, as \<open>Inl\<close>.
\<close>

definition processGeminiStreamEvents ::
  "deps \<Rightarrow> event_stream \<Rightarrow> nat \<Rightarrow> nat \<Rightarrow> hook_state
     \<Rightarrow> (thrown + StreamProcessingStatus) \<times> hook_state" where
  "processGeminiStreamEvents d stream userMessageTimestamp signal st =
     (case streamLoop d userMessageTimestamp (events stream) ([], [], st) of
        (geminiMessageBuffer, toolCallRequests, st1) \<Rightarrow>
          (case failure stream of
             Some e \<Rightarrow> (Inl e, st1)
           | None \<Rightarrow>
               (Inr Completed,
                if length toolCallRequests > 0
                then scheduleToolCalls toolCallRequests signal st1
                else st1)))"

subsection \<open>Query preprocessing\<close>

text \<open>
  What the collaborators answer during one invocation of \<open>submitQuery\<close>: the slash
  command processor, the shell command processor, the at-command processor, the random
  suffix of a client-made call id, the memory refresh (which may throw) and the backend
  (the stream it returns). What the collaborators do to the history on their own is
  outside the model.
\<close>

datatype slash_result =
    SlashBoolean bool
  | SlashAction (shouldScheduleTool: bool) (toolName: "string option") (toolArgs: "string option")

record turn_inputs =
  slashCommandResult :: slash_result
  shellCommandHandled :: bool
  atShouldProceed :: bool
  atProcessedQuery :: "part_list_union option"
  randomSuffix :: string
  refreshFailure :: "thrown option"
  stream :: event_stream

text \<open>
  Every return of \<^verbatim>\<open>prepareQueryForGemini\<close> has \<^verbatim>\<open>shouldProceed\<close> true exactly when
  \<^verbatim>\<open>queryToSend\<close> is not null; the model returns \<open>Some\<close> of the query to send, or
  \<open>None\<close>.
\<close>

definition slashToolCall :: "turn_inputs \<Rightarrow> string \<Rightarrow> string \<Rightarrow> nat \<Rightarrow> ToolCallRequestInfo" where
  "slashToolCall inp tname targs now =
     \<lparr>callId = tname @ ''-'' @ digits_of now @ ''-'' @ randomSuffix inp,
      name = tname, args = targs, isClientInitiated = True\<rparr>"

definition prepareQueryForGemini ::
  "deps \<Rightarrow> turn_inputs \<Rightarrow> part_list_union \<Rightarrow> nat \<Rightarrow> nat \<Rightarrow> hook_state
     \<Rightarrow> part_list_union option \<times> hook_state" where
  "prepareQueryForGemini d inp query userMessageTimestamp abortSignal st =
     (if turnCancelledRef st then (None, st)
      else case query of
        Single (PartString s) \<Rightarrow>
          if length (trim s) = 0 then (None, st)
          else
            let trimmedQuery = trim s
            in (case slashCommandResult inp of
                  SlashBoolean True \<Rightarrow> (None, st)
                | SlashAction True tname targs \<Rightarrow>
                    (case (tname, targs) of
                       (Some n, Some a) \<Rightarrow>
                         if n \<noteq> []
                         then (None, scheduleToolCalls [slashToolCall inp n a (clock st)] abortSignal st)
                         else (None, st)
                     | _ \<Rightarrow> (None, st))
                | _ \<Rightarrow>
                    if shellModeActive d \<and> shellCommandHandled inp then (None, st)
                    else if isAtCommand d trimmedQuery then
                      (if \<not> atShouldProceed inp then (None, st)
                       else (atProcessedQuery inp, st))
                    else (Some (Single (PartString trimmedQuery)),
                          addItem (TextItem USER trimmedQuery) userMessageTimestamp st))
      | _ \<Rightarrow> (Some query, st))"

subsection \<open>Submitting a query\<close>

text \<open>Lines 512 to 517: a textual query is cut into lines and the non-blank ones are queued.\<close>

definition enqueueQuery :: "part_list_union \<Rightarrow> hook_state \<Rightarrow> hook_state" where
  "enqueueQuery query st =
     (case query of
        Single (PartString s) \<Rightarrow>
          (let queries = filter (\<lambda>q. length (trim q) > 0) (split_newline s)
           in if length queries > 0
              then st\<lparr>queueState := queueState st @ queries\<rparr>
              else st)
      | _ \<Rightarrow> st)"

text \<open>Lines 522 to 527: the start of a new turn.\<close>

definition startTurn :: "hook_state \<Rightarrow> nat \<times> hook_state" where
  "startTurn st =
     newAbortController (st\<lparr>turnsStarted := Suc (turnsStarted st), turnCancelledRef := False\<rparr>)"

text \<open>\<^verbatim>\<open>setMessageQueue((prev) => prev.slice(1))\<close>\<close>

definition dropFirstQueued :: "hook_state \<Rightarrow> hook_state" where
  "dropFirstQueued st = st\<lparr>queueState := drop 1 (queueState st)\<rparr>"

text \<open>The \<^verbatim>\<open>catch\<close> clause: returns the new \<^verbatim>\<open>streamProcessingStatus\<close>.\<close>

definition catchClause ::
  "deps \<Rightarrow> thrown \<Rightarrow> nat \<Rightarrow> hook_state \<Rightarrow> StreamProcessingStatus \<times> hook_state" where
  "catchClause d e userMessageTimestamp st =
     (case e of
        UnauthorizedError _ \<Rightarrow> (Completed, st\<lparr>authErrors := Suc (authErrors st)\<rparr>)
      | NodeError code _ \<Rightarrow>
          if code = ''ERR_CANCELED'' then (UserCancelled, st)
          else (Completed, handleErrorEvent d (getErrorMessage d e) userMessageTimestamp st)
      | OtherError _ \<Rightarrow>
          (Completed, handleErrorEvent d (getErrorMessage d e) userMessageTimestamp st))"

text \<open>
  The \<^verbatim>\<open>try\<close> block with its \<^verbatim>\<open>catch\<close>: returns \<^verbatim>\<open>hasError\<close> and
  \<^verbatim>\<open>streamProcessingStatus\<close> as the \<^verbatim>\<open>finally\<close> block finds them.
\<close>

definition tryStream ::
  "deps \<Rightarrow> turn_inputs \<Rightarrow> part_list_union \<Rightarrow> nat \<Rightarrow> nat \<Rightarrow> hook_state
     \<Rightarrow> bool \<times> StreamProcessingStatus \<times> hook_state" where
  "tryStream d inp queryToSend userMessageTimestamp signal st =
     (case refreshFailure inp of
        Some e \<Rightarrow> (True, catchClause d e userMessageTimestamp st)
      | None \<Rightarrow>
          (case processGeminiStreamEvents d (stream inp) userMessageTimestamp signal
                  (st\<lparr>openedStreams := openedStreams st @ [(queryToSend, signal)]\<rparr>) of
             (Inr streamProcessingStatus, st1) \<Rightarrow> (False, streamProcessingStatus, st1)
           | (Inl e, st1) \<Rightarrow> (True, catchClause d e userMessageTimestamp st1)))"

text \<open>Lines 590 to 596, the unconditional part of the \<^verbatim>\<open>finally\<close> block.\<close>

definition finallyCleanup :: "nat \<Rightarrow> hook_state \<Rightarrow> hook_state" where
  "finallyCleanup userMessageTimestamp st =
     (let st1 = (case pendingHistoryItemRef st of
                   Some item \<Rightarrow> setPendingHistoryItem None (addItem item userMessageTimestamp st)
                 | None \<Rightarrow> st)
      in st1\<lparr>respondingState := False, abortControllerRef := None\<rparr>)"

text \<open>
  \<open>submitQuery d r world query isContinuation st\<close> is one call of the callback made in
  render \<open>r\<close>. The gate and the three queue tests read \<open>r\<close>; the setters and refs act
  on \<open>st\<close>. The three calls \<^verbatim>\<open>void submitQuery(nextQuery, { isContinuation: false })\<close>
  name the callback of the same render, so the nested call reads the same \<open>r\<close>; each is
  the last thing its caller does, and its caller does not wait for it. \<open>world\<close> gives
  the collaborators' answers for the turn with a given number. The source can be
  suspended at each \<^verbatim>\<open>await\<close>; the model runs one call to its end, without what
  other callbacks do in between. The value is \<open>None\<close> when the nested calls never come
  to an end.
\<close>

partial_function (option) submitQuery ::
  "deps \<Rightarrow> render \<Rightarrow> (nat \<Rightarrow> turn_inputs) \<Rightarrow> part_list_union \<Rightarrow> bool \<Rightarrow> hook_state
     \<Rightarrow> hook_state option" where
  "submitQuery d r world query isContinuation st =
     (if (renderStreamingState r = Responding \<or> renderStreamingState r = WaitingForConfirmation)
         \<and> \<not> isContinuation
      then Some (enqueueQuery query st)
      else
        case startTurn st of (signal, st1) \<Rightarrow>
        let userMessageTimestamp = clock st1 in
        if length (messageQueue r) > 0 \<and> \<not> isContinuation
        then submitQuery d r world (Single (PartString (hd (messageQueue r)))) False
               (dropFirstQueued st1)
        else
          case prepareQueryForGemini d (world (turnsStarted st1)) query userMessageTimestamp signal
                 (st1\<lparr>respondingState := True, thoughtState := None\<rparr>) of
            (None, st2) \<Rightarrow>
              if length (messageQueue r) > 0
              then submitQuery d r world (Single (PartString (hd (messageQueue r)))) False
                     (dropFirstQueued (st2\<lparr>respondingState := False\<rparr>))
              else Some (st2\<lparr>respondingState := False\<rparr>)
          | (Some queryToSend, st2) \<Rightarrow>
              (case tryStream d (world (turnsStarted st1)) queryToSend userMessageTimestamp signal st2 of
                 (hasError, streamProcessingStatus, st3) \<Rightarrow>
                   let st4 = finallyCleanup userMessageTimestamp st3 in
                   if \<not> turnCancelledRef st4
                      \<and> \<not> hasError
                      \<and> streamProcessingStatus = Completed
                      \<and> length (toolCalls r) = 0
                      \<and> length (messageQueue r) > 0
                   then submitQuery d r world (Single (PartString (hd (messageQueue r)))) False
                          (dropFirstQueued st4)
                   else Some st4))"

subsection \<open>The tool completion effect\<close>

text \<open>
  The effect runs with the \<^verbatim>\<open>toolCalls\<close> and the \<^verbatim>\<open>submitQuery\<close> of its render.
  \<open>markToolsAsSubmitted\<close> reaches the scheduler's list, which the next render shows.
\<close>

definition toolCompletionEffect ::
  "deps \<Rightarrow> render \<Rightarrow> (nat \<Rightarrow> turn_inputs) \<Rightarrow> hook_state \<Rightarrow> hook_state option" where
  "toolCompletionEffect d r world st =
     (let completedAndUnsubmittedTools = filter completedAndUnsubmitted (toolCalls r)
      in if length completedAndUnsubmittedTools > 0
         then
           let toolParts = map responseParts completedAndUnsubmittedTools;
               st1 = markToolsAsSubmitted
                       (map (\<lambda>tool. callId (request tool)) completedAndUnsubmittedTools) st
           in (case submitQuery d r world (mergePartListUnions toolParts) True st1 of
                 Some st2 \<Rightarrow>
                   Some (markToolsAsSubmitted
                           (map (\<lambda>tool. callId (request tool)) completedAndUnsubmittedTools) st2)
               | None \<Rightarrow> None)
         else Some st)"

text \<open>
  Modelled from the spec: the tool scheduler is not part of this unit. Its operation
  \<^verbatim>\<open>markSubmitted(callIds)\<close> marks the tracked calls with these ids as submitted; the
  list below is the one that the render after the marking shows.
\<close>

definition markSubmitted :: "string list \<Rightarrow> TrackedToolCall list \<Rightarrow> TrackedToolCall list" where
  "markSubmitted callIds tcs =
     map (\<lambda>tc. if callId (request tc) \<in> set callIds
               then tc\<lparr>responseSubmittedToGemini := True\<rparr> else tc) tcs"

subsection \<open>The specification's notions\<close>

text \<open>
  The streaming state in the specification's words: waiting for confirmation if any
  tracked call awaits approval; else responding if the turn is actively streaming, or any
  tracked call is executing, scheduled or validating, or any call has reached a terminal
  state without its response having been submitted; else idle.
\<close>

definition spec_streamingState :: "bool \<Rightarrow> TrackedToolCall list \<Rightarrow> StreamingState" where
  "spec_streamingState turnActive tcs =
     (if \<exists>tc \<in> set tcs. status tc = awaiting_approval then WaitingForConfirmation
      else if turnActive
              \<or> (\<exists>tc \<in> set tcs. status tc \<in> {executing, scheduled, validating})
              \<or> (\<exists>tc \<in> set tcs. status tc \<in> {success, error, cancelled}
                                 \<and> \<not> responseSubmittedToGemini tc)
      then Responding
      else Idle)"

text \<open>
  Modelled from the spec: \<^verbatim>\<open>findLastSafeSplitPoint\<close> (the content buffer splitter) is
  not part of this unit. Its contract is \<^verbatim>\<open>split(buffer) \<rightarrow> index\<close> where
  \<^verbatim>\<open>0 \<le> index \<le> length(buffer)\<close>.
\<close>

definition splitContract :: "(string \<Rightarrow> int) \<Rightarrow> bool" where
  "splitContract split \<longleftrightarrow>
     (\<forall>buffer. 0 \<le> split buffer \<and> split buffer \<le> int (length buffer))"

text \<open>What no stream event handler touches.\<close>

definition unchangedByEvents :: "hook_state \<Rightarrow> hook_state \<Rightarrow> bool" where
  "unchangedByEvents st st' \<longleftrightarrow>
     scheduledBatches st' = scheduledBatches st
     \<and> turnCancelledRef st' = turnCancelledRef st
     \<and> openedStreams st' = openedStreams st
     \<and> submittedMarks st' = submittedMarks st
     \<and> queueState st' = queueState st
     \<and> turnsStarted st' = turnsStarted st
     \<and> abortSignals st' = abortSignals st
     \<and> abortControllerRef st' = abortControllerRef st
     \<and> authErrors st' = authErrors st
     \<and> clock st' = clock st"

text \<open>What neither the stream processor nor the \<^verbatim>\<open>catch\<close> clause touches.\<close>

definition unchangedByStream :: "hook_state \<Rightarrow> hook_state \<Rightarrow> bool" where
  "unchangedByStream st st' \<longleftrightarrow>
     queueState st' = queueState st
     \<and> turnCancelledRef st' = turnCancelledRef st
     \<and> openedStreams st' = openedStreams st
     \<and> submittedMarks st' = submittedMarks st
     \<and> turnsStarted st' = turnsStarted st
     \<and> abortSignals st' = abortSignals st
     \<and> abortControllerRef st' = abortControllerRef st
     \<and> clock st' = clock st"

subsection \<open>Sample values\<close>

text \<open>The state of a freshly mounted hook, and a state in the middle of a streaming turn.\<close>

definition initialState :: hook_state where
  "initialState =
     \<lparr>queueState = [], respondingState = False, thoughtState = None,
      turnCancelledRef = False, abortControllerRef = None, abortSignals = [],
      pendingHistoryItemRef = None, history = [], scheduledBatches = [],
      submittedMarks = [], openedStreams = [], usageLog = [], turnsStarted = 0,
      authErrors = 0, clock = 0\<rparr>"

definition midTurnState :: hook_state where
  "midTurnState =
     initialState\<lparr>respondingState := True, abortControllerRef := Some 0,
                  abortSignals := [False], turnsStarted := 1,
                  pendingHistoryItemRef := Some (TextItem GEMINI ''Hel'')\<rparr>"

definition sampleSplitPoint :: "string \<Rightarrow> int" where
  "sampleSplitPoint buffer = (if length buffer \<le> 4 then int (length buffer) else 4)"

definition sampleDeps :: deps where
  "sampleDeps =
     \<lparr>findLastSafeSplitPoint = sampleSplitPoint,
      parseAndFormatApiError = (\<lambda>e a. ''[API Error: '' @ e @ '']''),
      authType = ''oauth-personal'',
      getModel = ''gemini-2.5-pro'',
      getErrorMessage = (\<lambda>e. case e of UnauthorizedError m \<Rightarrow> m
                                        | NodeError c m \<Rightarrow> m
                                        | OtherError m \<Rightarrow> m),
      shellModeActive = False,
      isAtCommand = (\<lambda>q. CHR ''@'' \<in> set q)\<rparr>"

definition sampleRequest :: ToolCallRequestInfo where
  "sampleRequest =
     \<lparr>callId = ''call-1'', name = ''read_file'', args = ''{}'', isClientInitiated = False\<rparr>"

definition awaitingCall :: TrackedToolCall where
  "awaitingCall =
     \<lparr>status = awaiting_approval, request = sampleRequest,
      responseParts = Many [], responseSubmittedToGemini = False\<rparr>"

definition completedCall :: TrackedToolCall where
  "completedCall =
     \<lparr>status = success, request = sampleRequest,
      responseParts = Single (PartObject (Part ''file contents'')),
      responseSubmittedToGemini = False\<rparr>"

text \<open>A backend that answers every turn with the single text delta \<open>4\<close>.\<close>

definition sampleInputs :: turn_inputs where
  "sampleInputs =
     \<lparr>slashCommandResult = SlashBoolean False, shellCommandHandled = False,
      atShouldProceed = True, atProcessedQuery = None, randomSuffix = ''9f3a'',
      refreshFailure = None,
      stream = \<lparr>events = [ContentEvent ''4''], failure = None\<rparr>\<rparr>"

definition sampleWorld :: "nat \<Rightarrow> turn_inputs" where
  "sampleWorld n = sampleInputs"

definition idleRender :: render where
  "idleRender = \<lparr>messageQueue = [], isResponding = False, toolCalls = []\<rparr>"

definition busyRender :: render where
  "busyRender = \<lparr>messageQueue = [], isResponding = True, toolCalls = []\<rparr>"

definition waitingRender :: render where
  "waitingRender = \<lparr>messageQueue = [], isResponding = True, toolCalls = [awaitingCall]\<rparr>"

definition completedRender :: render where
  "completedRender = \<lparr>messageQueue = [], isResponding = False, toolCalls = [completedCall]\<rparr>"

definition otherRequest :: ToolCallRequestInfo where
  "otherRequest =
     \<lparr>callId = ''call-2'', name = ''list_directory'', args = ''{}'', isClientInitiated = False\<rparr>"

definition sampleDisplay :: IndividualToolCallDisplay where
  "sampleDisplay =
     \<lparr>displayCallId = ''call-1'', displayName = ''read_file'', displayStatus = ToolExecuting\<rparr>"

definition toolGroupPendingState :: hook_state where
  "toolGroupPendingState =
     midTurnState\<lparr>pendingHistoryItemRef := Some (ToolGroupItem [sampleDisplay])\<rparr>"

definition queuedIdleRender :: render where
  "queuedIdleRender = \<lparr>messageQueue = [''a''], isResponding = False, toolCalls = []\<rparr>"

text \<open>
  The state after the escape key has cancelled the turn of \<open>midTurnState\<close>.
\<close>

definition cancelledState :: hook_state where
  "cancelledState =
     initialState\<lparr>turnCancelledRef := True, abortControllerRef := Some 0,
                  abortSignals := [True], turnsStarted := 1,
                  history := [(TextItem GEMINI ''Hel'', 0),
                              (TextItem INFO ''Request cancelled.'', 0)]\<rparr>"

text \<open>
  A tool call that the scheduler has cancelled, one that is executing, and a backend
  whose stream asks for one tool call; \<open>toolsScheduledState\<close> is the state that the
  turn on this stream leaves.
\<close>

definition cancelledCall :: TrackedToolCall where
  "cancelledCall =
     \<lparr>status = cancelled, request = sampleRequest,
      responseParts = Single (PartObject (Part ''operation cancelled'')),
      responseSubmittedToGemini = False\<rparr>"

definition cancelledRender :: render where
  "cancelledRender = \<lparr>messageQueue = [], isResponding = False, toolCalls = [cancelledCall]\<rparr>"

definition executingCall :: TrackedToolCall where
  "executingCall =
     \<lparr>status = executing, request = sampleRequest,
      responseParts = Many [], responseSubmittedToGemini = False\<rparr>"

definition executingRender :: render where
  "executingRender = \<lparr>messageQueue = [], isResponding = False, toolCalls = [executingCall]\<rparr>"

definition toolWorld :: "nat \<Rightarrow> turn_inputs" where
  "toolWorld n =
     sampleInputs\<lparr>stream := \<lparr>events = [ToolCallRequestEvent sampleRequest], failure = None\<rparr>\<rparr>"

definition toolsScheduledState :: hook_state where
  "toolsScheduledState =
     initialState\<lparr>turnsStarted := 1, abortSignals := [False],
                  history := [(TextItem USER ''read it'', 0)],
                  openedStreams := [(Single (PartString ''read it''), 0)],
                  scheduledBatches := [([sampleRequest], 0)]\<rparr>"

text \<open>
  The turn on the query \<open>Hi\<close>, from a freshly mounted hook: the state when the turn
  has started, when the query is preprocessed, and when the first delta \<open>Hel\<close> of the
  open stream has been handled.
\<close>

definition turnStartedState :: hook_state where
  "turnStartedState =
     initialState\<lparr>turnsStarted := 1, abortSignals := [False], abortControllerRef := Some 0\<rparr>"

definition preprocessedState :: hook_state where
  "preprocessedState =
     turnStartedState\<lparr>respondingState := True, history := [(TextItem USER ''Hi'', 0)]\<rparr>"

definition openStreamState :: hook_state where
  "openStreamState =
     preprocessedState\<lparr>openedStreams := [(Single (PartString ''Hi''), 0)],
                       pendingHistoryItemRef := Some (TextItem GEMINI ''Hel'')\<rparr>"

section \<open>Shared lemmas\<close>

subsection \<open>Strings\<close>

lemma substring_prefix: "0 \<le> i \<Longrightarrow> substring s 0 i = take (nat i) s"
  by (auto simp: substring_def clamp_index_def Let_def min_def)

lemma substring_from_suffix: "0 \<le> i \<Longrightarrow> substring_from s i = drop (nat i) s"
  by (auto simp: substring_from_def clamp_index_def min_def)

lemma split_newline_not_empty: "split_newline s \<noteq> []"
  by (induction s) simp_all

lemma split_newline_pieces: "l \<in> set (split_newline s) \<Longrightarrow> CHR 0x0A \<notin> set l"
proof (induction s arbitrary: l)
  case Nil
  then show ?case by simp
next
  case (Cons c cs)
  have shape: "split_newline cs = hd (split_newline cs) # tl (split_newline cs)"
    using split_newline_not_empty[of cs] by simp
  show ?case
  proof (cases "c = CHR 0x0A")
    case True
    with Cons show ?thesis by auto
  next
    case False
    with Cons.prems have "l = c # hd (split_newline cs) \<or> l \<in> set (tl (split_newline cs))"
      by simp
    then show ?thesis
    proof
      assume "l = c # hd (split_newline cs)"
      moreover have "CHR 0x0A \<notin> set (hd (split_newline cs))"
        using Cons.IH[of "hd (split_newline cs)"] split_newline_not_empty[of cs] by simp
      ultimately show ?thesis using False by simp
    next
      assume "l \<in> set (tl (split_newline cs))"
      then have "l \<in> set (split_newline cs)"
        using shape by (metis list.set_intros(2))
      then show ?thesis by (rule Cons.IH)
    qed
  qed
qed

lemma split_newline_join:
  "concat (map ((#) (CHR 0x0A)) (split_newline s)) = CHR 0x0A # s"
proof (induction s)
  case Nil
  show ?case by simp
next
  case (Cons c cs)
  have shape: "split_newline cs = hd (split_newline cs) # tl (split_newline cs)"
    using split_newline_not_empty[of cs] by simp
  from Cons have "concat (map ((#) (CHR 0x0A)) (hd (split_newline cs) # tl (split_newline cs)))
                    = CHR 0x0A # cs"
    using shape by simp
  then have tail: "hd (split_newline cs) @ concat (map ((#) (CHR 0x0A)) (tl (split_newline cs))) = cs"
    by simp
  show ?case
  proof (cases "c = CHR 0x0A")
    case True
    with Cons show ?thesis by simp
  next
    case False
    with tail show ?thesis by simp
  qed
qed

lemma sampleSplitPoint_contract: "splitContract sampleSplitPoint"
  by (simp add: splitContract_def sampleSplitPoint_def)

subsection \<open>What the event handlers and the stream processor leave alone\<close>

lemma unchangedByEvents_refl: "unchangedByEvents st st"
  by (simp add: unchangedByEvents_def)

lemma unchangedByEvents_trans:
  "unchangedByEvents a b \<Longrightarrow> unchangedByEvents b c \<Longrightarrow> unchangedByEvents a c"
  by (simp add: unchangedByEvents_def)

lemma handleContentEvent_frame:
  "unchangedByEvents st (snd (handleContentEvent d v buf ts st))"
  by (auto simp: handleContentEvent_def unchangedByEvents_def Let_def setPendingHistoryItem_def
      addItem_def split: option.splits)

lemma handleUserCancelledEvent_frame:
  "unchangedByEvents st (handleUserCancelledEvent ts st)"
  by (auto simp: handleUserCancelledEvent_def unchangedByEvents_def Let_def
      setPendingHistoryItem_def addItem_def split: option.splits HistoryItem.splits)

lemma handleErrorEvent_frame:
  "unchangedByEvents st (handleErrorEvent d e ts st)"
  by (auto simp: handleErrorEvent_def unchangedByEvents_def Let_def
      setPendingHistoryItem_def addItem_def split: option.splits)

lemma handleChatCompressionEvent_frame:
  "unchangedByEvents st (handleChatCompressionEvent d v st)"
  by (simp add: handleChatCompressionEvent_def unchangedByEvents_def addItem_def)

lemma handleEvent_state:
  "unchangedByEvents st (snd (snd (handleEvent d ts ev (buf, reqs, st))))"
  by (cases ev)
     (simp_all add: case_prod_unfold handleContentEvent_frame handleUserCancelledEvent_frame
        handleErrorEvent_frame handleChatCompressionEvent_frame unchangedByEvents_refl,
      simp_all add: unchangedByEvents_def)

lemma handleEvent_requests:
  "fst (snd (handleEvent d ts ev (buf, reqs, st))) = reqs @ [v. ToolCallRequestEvent v \<leftarrow> [ev]]"
  by (cases ev) (simp_all add: case_prod_unfold)

lemma handleEvent_frame:
  "handleEvent d ts ev (buf, reqs, st) = (buf', reqs', st') \<Longrightarrow>
     unchangedByEvents st st'
     \<and> reqs' = reqs @ [v. ToolCallRequestEvent v \<leftarrow> [ev]]"
  using handleEvent_state[of st d ts ev buf reqs] handleEvent_requests[of d ts ev buf reqs st]
  by simp

lemma streamLoop_frame:
  "streamLoop d ts evs (buf, reqs, st) = (buf', reqs', st') \<Longrightarrow>
     unchangedByEvents st st'
     \<and> reqs' = reqs @ [v. ToolCallRequestEvent v \<leftarrow> evs]"
proof (induction evs arbitrary: buf reqs st)
  case Nil
  then show ?case by (simp add: unchangedByEvents_refl)
next
  case (Cons ev evs)
  obtain b1 r1 s1 where step: "handleEvent d ts ev (buf, reqs, st) = (b1, r1, s1)"
    by (cases "handleEvent d ts ev (buf, reqs, st)") auto
  from Cons.prems step have rest: "streamLoop d ts evs (b1, r1, s1) = (buf', reqs', st')"
    by simp
  from handleEvent_frame[OF step] Cons.IH[OF rest] show ?case
    by (auto intro: unchangedByEvents_trans)
qed

text \<open>
  The same holds for every call that starts a turn from a render with an empty queue:
  it leaves the live queue as it finds it.
\<close>

lemma prepareQueryForGemini_queue:
  "queueState (snd (prepareQueryForGemini d inp query ts signal st)) = queueState st"
  by (auto simp: prepareQueryForGemini_def scheduleToolCalls_def addItem_def Let_def
      split: part_list_union.splits part_union.splits slash_result.splits option.splits
        bool.splits)

lemma catchClause_frame:
  "unchangedByStream st (snd (catchClause d e ts st))"
  using handleErrorEvent_frame[of st d _ ts]
  by (auto simp: catchClause_def unchangedByEvents_def unchangedByStream_def split: thrown.splits)

lemma processGeminiStreamEvents_frame:
  "unchangedByStream st (snd (processGeminiStreamEvents d s ts signal st))"
proof -
  obtain b1 r1 s1 where loop: "streamLoop d ts (events s) ([], [], st) = (b1, r1, s1)"
    by (cases "streamLoop d ts (events s) ([], [], st)") auto
  from streamLoop_frame[OF loop] have "unchangedByStream st s1"
    by (simp add: unchangedByEvents_def unchangedByStream_def)
  then show ?thesis
    by (simp add: processGeminiStreamEvents_def loop scheduleToolCalls_def unchangedByStream_def
        split: option.splits)
qed

lemma tryStream_frame:
  "unchangedByStream
     (st\<lparr>openedStreams := openedStreams st
            @ (if refreshFailure inp = None then [(q, signal)] else [])\<rparr>)
     (snd (snd (tryStream d inp q ts signal st)))"
proof (cases "refreshFailure inp")
  case None
  define st0 where "st0 = st\<lparr>openedStreams := openedStreams st @ [(q, signal)]\<rparr>"
  obtain res s1 where run: "processGeminiStreamEvents d (stream inp) ts signal st0 = (res, s1)"
    by (cases "processGeminiStreamEvents d (stream inp) ts signal st0") auto
  from processGeminiStreamEvents_frame[of st0 d "stream inp" ts signal] run
  have s1: "unchangedByStream st0 s1" by simp
  show ?thesis
  proof (cases res)
    case (Inl e)
    from catchClause_frame[of s1 d e ts] s1 show ?thesis
      using None run Inl
      by (simp add: tryStream_def st0_def[symmetric] unchangedByStream_def)
  next
    case (Inr stat)
    with s1 None run show ?thesis
      by (simp add: tryStream_def st0_def[symmetric])
  qed
next
  case (Some e)
  then show ?thesis
    using catchClause_frame[of st d e ts] by (simp add: tryStream_def unchangedByStream_def)
qed

lemma finallyCleanup_frame:
  "queueState (finallyCleanup ts st) = queueState st
   \<and> openedStreams (finallyCleanup ts st) = openedStreams st
   \<and> submittedMarks (finallyCleanup ts st) = submittedMarks st
   \<and> turnsStarted (finallyCleanup ts st) = turnsStarted st"
  by (auto simp: finallyCleanup_def setPendingHistoryItem_def addItem_def Let_def
      split: option.splits)

subsection \<open>Calls of a callback whose render has a non-empty queue\<close>

text \<open>
  A call that is not a continuation, made by the callback of an idle render with a
  non-empty queue, does not return: it starts a turn, drops the head of the live queue
  and calls the same callback with the head of the render's queue, which is in the
  same position.
\<close>

lemma submitQuery_returns_only_if:
  assumes "submitQuery d r world query isContinuation st = Some st'"
  shows "renderStreamingState r = Idle \<longrightarrow> messageQueue r \<noteq> [] \<longrightarrow> isContinuation"
  using assms
proof (induction rule: submitQuery.raw_induct[rotated 1, consumes 1])
  case (1 submitQuery' d r world query isContinuation st st')
  show ?case
  proof (intro impI, rule ccontr)
    assume idle: "renderStreamingState r = Idle" and queued: "messageQueue r \<noteq> []"
      and fresh: "\<not> isContinuation"
    with "1.hyps" have "submitQuery' d r world (Single (PartString (hd (messageQueue r)))) False
            (dropFirstQueued (snd (startTurn st))) = Some st'"
      by (simp add: case_prod_unfold split: if_splits)
    from "1.IH"[OF this] idle queued show False by simp
  qed
qed

lemma submitQuery_idle_queued:
  assumes "renderStreamingState r = Idle" and "messageQueue r \<noteq> []"
  shows "submitQuery d r world query False st = None"
proof (cases "submitQuery d r world query False st")
  case None
  then show ?thesis .
next
  case (Some st')
  from submitQuery_returns_only_if[OF this] assms show ?thesis by simp
qed

lemma submitQuery_busy:
  assumes "renderStreamingState r = Responding \<or> renderStreamingState r = WaitingForConfirmation"
  shows "submitQuery d r world query False st = Some (enqueueQuery query st)"
  using assms by (subst submitQuery.simps) simp

lemma submitQuery_nested:
  assumes "messageQueue r \<noteq> []"
  shows "submitQuery d r world query False st
           = (if renderStreamingState r = Idle then None else Some (enqueueQuery query st))"
proof (cases "renderStreamingState r = Idle")
  case True
  then show ?thesis using assms by (simp add: submitQuery_idle_queued)
next
  case False
  then have "renderStreamingState r = Responding \<or> renderStreamingState r = WaitingForConfirmation"
    by (cases "renderStreamingState r") simp_all
  from submitQuery_busy[OF this] False show ?thesis by simp
qed

subsection \<open>Calls of a callback whose render has an empty queue\<close>

text \<open>
  A call that starts a turn from a render with an empty queue makes no nested call: the
  two later queue tests read the render's queue again.
\<close>

lemma submitQuery_empty_queue:
  assumes "messageQueue r = []" and "isContinuation \<or> renderStreamingState r = Idle"
  shows "submitQuery d r world query isContinuation st
           = (case startTurn st of
                (signal, st1) \<Rightarrow>
                  (case prepareQueryForGemini d (world (turnsStarted st1)) query (clock st1) signal
                          (st1\<lparr>respondingState := True, thoughtState := None\<rparr>) of
                     (None, st2) \<Rightarrow> Some (st2\<lparr>respondingState := False\<rparr>)
                   | (Some queryToSend, st2) \<Rightarrow>
                       (case tryStream d (world (turnsStarted st1)) queryToSend (clock st1)
                               signal st2 of
                          (hasError, streamProcessingStatus, st3) \<Rightarrow>
                            Some (finallyCleanup (clock st1) st3))))"
  using assms
  by (subst submitQuery.simps) (auto simp: Let_def split: prod.splits option.splits)

lemma submitQuery_empty_queue_keeps_queue:
  assumes "messageQueue r = []" and "isContinuation \<or> renderStreamingState r = Idle"
    and "submitQuery d r world query isContinuation st = Some st'"
  shows "queueState st' = queueState st"
proof -
  obtain signal st1 where start: "startTurn st = (signal, st1)"
    by (cases "startTurn st") auto
  then have q1: "queueState st1 = queueState st"
    by (auto simp: startTurn_def newAbortController_def)
  obtain qs st2 where prep: "prepareQueryForGemini d (world (turnsStarted st1)) query (clock st1)
      signal (st1\<lparr>respondingState := True, thoughtState := None\<rparr>) = (qs, st2)"
    by (cases "prepareQueryForGemini d (world (turnsStarted st1)) query (clock st1)
      signal (st1\<lparr>respondingState := True, thoughtState := None\<rparr>)") auto
  from prepareQueryForGemini_queue[of d "world (turnsStarted st1)" query "clock st1" signal
      "st1\<lparr>respondingState := True, thoughtState := None\<rparr>"] prep q1
  have q2: "queueState st2 = queueState st" by simp
  show ?thesis
  proof (cases qs)
    case None
    with assms(3) start prep q2 show ?thesis
      by (auto simp: submitQuery_empty_queue[OF assms(1,2)])
  next
    case (Some queryToSend)
    obtain hasError stat st3 where run:
      "tryStream d (world (turnsStarted st1)) queryToSend (clock st1) signal st2
         = (hasError, stat, st3)"
      by (cases "tryStream d (world (turnsStarted st1)) queryToSend (clock st1) signal st2") auto
    from tryStream_frame[of st2 "world (turnsStarted st1)" queryToSend signal d "clock st1"] run q2
    have q3: "queueState st3 = queueState st" by (simp add: unchangedByStream_def)
    have "queueState (finallyCleanup (clock st1) st3) = queueState st3"
      by (simp add: finallyCleanup_frame)
    with assms(3) start prep Some run q3 show ?thesis
      by (auto simp: submitQuery_empty_queue[OF assms(1,2)])
  qed
qed

subsection \<open>The live queue is not read\<close>

text \<open>
  No function reads the live queue: each one commutes with a change of the queue. So a
  line that is queued while a call is suspended leaves the same state as one queued
  before the call.
\<close>

lemma handleContentEvent_queue:
  "handleContentEvent d v buf ts (st\<lparr>queueState := q\<rparr>)
     = (fst (handleContentEvent d v buf ts st),
        (snd (handleContentEvent d v buf ts st))\<lparr>queueState := q\<rparr>)"
  by (cases "pendingHistoryItemRef st")
     (simp_all add: handleContentEvent_def Let_def setPendingHistoryItem_def addItem_def
        currentPendingType_def pendingType_def)

lemma handleUserCancelledEvent_queue:
  "handleUserCancelledEvent ts (st\<lparr>queueState := q\<rparr>)
     = (handleUserCancelledEvent ts st)\<lparr>queueState := q\<rparr>"
  by (simp add: handleUserCancelledEvent_def Let_def setPendingHistoryItem_def addItem_def
      split: option.splits HistoryItem.splits)

lemma handleErrorEvent_queue:
  "handleErrorEvent d e ts (st\<lparr>queueState := q\<rparr>) = (handleErrorEvent d e ts st)\<lparr>queueState := q\<rparr>"
  by (simp add: handleErrorEvent_def Let_def setPendingHistoryItem_def addItem_def
      split: option.splits)

lemma handleChatCompressionEvent_queue:
  "handleChatCompressionEvent d v (st\<lparr>queueState := q\<rparr>)
     = (handleChatCompressionEvent d v st)\<lparr>queueState := q\<rparr>"
  by (simp add: handleChatCompressionEvent_def addItem_def)

lemma handleEvent_queue:
  "handleEvent d ts ev (buf, reqs, st\<lparr>queueState := q\<rparr>)
     = (case handleEvent d ts ev (buf, reqs, st) of
          (buf', reqs', st') \<Rightarrow> (buf', reqs', st'\<lparr>queueState := q\<rparr>))"
  by (cases ev)
     (simp_all add: handleContentEvent_queue handleUserCancelledEvent_queue
        handleErrorEvent_queue handleChatCompressionEvent_queue case_prod_unfold)

lemma streamLoop_queue:
  "streamLoop d ts evs (buf, reqs, st\<lparr>queueState := q\<rparr>)
     = (case streamLoop d ts evs (buf, reqs, st) of
          (buf', reqs', st') \<Rightarrow> (buf', reqs', st'\<lparr>queueState := q\<rparr>))"
proof (induction evs arbitrary: buf reqs st)
  case Nil
  show ?case by simp
next
  case (Cons ev evs)
  obtain b1 r1 s1 where step: "handleEvent d ts ev (buf, reqs, st) = (b1, r1, s1)"
    by (cases "handleEvent d ts ev (buf, reqs, st)") auto
  show ?case
    by (simp add: handleEvent_queue step Cons.IH)
qed

lemma processGeminiStreamEvents_queue:
  "processGeminiStreamEvents d s ts signal (st\<lparr>queueState := q\<rparr>)
     = (fst (processGeminiStreamEvents d s ts signal st),
        (snd (processGeminiStreamEvents d s ts signal st))\<lparr>queueState := q\<rparr>)"
  by (simp add: processGeminiStreamEvents_def streamLoop_queue scheduleToolCalls_def
      case_prod_unfold split: option.splits)

lemma catchClause_queue:
  "catchClause d e ts (st\<lparr>queueState := q\<rparr>)
     = (fst (catchClause d e ts st), (snd (catchClause d e ts st))\<lparr>queueState := q\<rparr>)"
  by (simp add: catchClause_def handleErrorEvent_queue split: thrown.splits)

lemma tryStream_queue:
  "tryStream d inp query ts signal (st\<lparr>queueState := q\<rparr>)
     = (case tryStream d inp query ts signal st of
          (hasError, stat, st') \<Rightarrow> (hasError, stat, st'\<lparr>queueState := q\<rparr>))"
proof -
  have moved: "st\<lparr>queueState := q, openedStreams := openedStreams st @ [(query, signal)]\<rparr>
                 = st\<lparr>openedStreams := openedStreams st @ [(query, signal)], queueState := q\<rparr>"
    by simp
  show ?thesis
    by (simp add: tryStream_def catchClause_queue moved processGeminiStreamEvents_queue
        case_prod_unfold split: option.splits sum.splits)
qed

lemma prepareQueryForGemini_commutes:
  "prepareQueryForGemini d inp query ts signal (st\<lparr>queueState := q\<rparr>)
     = (fst (prepareQueryForGemini d inp query ts signal st),
        (snd (prepareQueryForGemini d inp query ts signal st))\<lparr>queueState := q\<rparr>)"
  by (auto simp: prepareQueryForGemini_def scheduleToolCalls_def addItem_def Let_def
      split: part_list_union.splits part_union.splits slash_result.splits option.splits
        bool.splits)

lemma finallyCleanup_queue:
  "finallyCleanup ts (st\<lparr>queueState := q\<rparr>) = (finallyCleanup ts st)\<lparr>queueState := q\<rparr>"
  by (simp add: finallyCleanup_def setPendingHistoryItem_def addItem_def Let_def
      split: option.splits)

lemma startTurn_queue:
  "startTurn (st\<lparr>queueState := q\<rparr>) = (fst (startTurn st), (snd (startTurn st))\<lparr>queueState := q\<rparr>)"
  by (simp add: startTurn_def newAbortController_def)

lemma submitQuery_empty_queue_commutes:
  assumes "messageQueue r = []" and "isContinuation \<or> renderStreamingState r = Idle"
  shows "submitQuery d r world query isContinuation (st\<lparr>queueState := q\<rparr>)
           = map_option (\<lambda>st'. st'\<lparr>queueState := q\<rparr>)
               (submitQuery d r world query isContinuation st)"
proof -
  have moved: "s\<lparr>queueState := q, respondingState := True, thoughtState := None\<rparr>
                 = s\<lparr>respondingState := True, thoughtState := None, queueState := q\<rparr>" for s
    by simp
  have moved': "s\<lparr>queueState := q, respondingState := False\<rparr>
                 = s\<lparr>respondingState := False, queueState := q\<rparr>" for s
    by simp
  show ?thesis
    unfolding submitQuery_empty_queue[OF assms]
    by (simp add: startTurn_queue case_prod_unfold moved prepareQueryForGemini_commutes
        tryStream_queue finallyCleanup_queue moved' split: option.splits)
qed

subsection \<open>Continuation calls made by the completion effect\<close>

text \<open>
  A continuation call with an array of parts, made by the callback of a render that
  tracks at least one tool call, always returns: it starts a turn, sends the parts
  unchanged and makes no nested call, because the render's tool call list is not empty.
\<close>

lemma submitQuery_continuation_parts:
  assumes "toolCalls r \<noteq> []"
  shows "submitQuery d r world (Many ps) True st
           = (case startTurn st of
                (signal, st1) \<Rightarrow>
                  (case tryStream d (world (turnsStarted st1)) (Many ps) (clock st1) signal
                          (st1\<lparr>respondingState := True, thoughtState := None\<rparr>) of
                     (hasError, streamProcessingStatus, st3) \<Rightarrow>
                       Some (finallyCleanup (clock st1) st3)))"
  using assms
  by (subst submitQuery.simps)
     (auto simp: Let_def startTurn_def newAbortController_def prepareQueryForGemini_def
        split: prod.splits option.splits)

lemma markSubmitted_nothing_due:
  "filter completedAndUnsubmitted
     (markSubmitted (map (\<lambda>tool. callId (request tool)) (filter completedAndUnsubmitted tcs)) tcs)
   = []"
  by (auto simp: filter_empty_conv markSubmitted_def completedAndUnsubmitted_def)

subsection \<open>The cancellation flag and the abort controller\<close>

lemma prepareQueryForGemini_refs:
  "abortSignals (snd (prepareQueryForGemini d inp query ts signal st)) = abortSignals st
   \<and> abortControllerRef (snd (prepareQueryForGemini d inp query ts signal st)) = abortControllerRef st
   \<and> turnCancelledRef (snd (prepareQueryForGemini d inp query ts signal st)) = turnCancelledRef st
   \<and> openedStreams (snd (prepareQueryForGemini d inp query ts signal st)) = openedStreams st"
  by (auto simp: prepareQueryForGemini_def scheduleToolCalls_def addItem_def Let_def
      split: part_list_union.splits part_union.splits slash_result.splits option.splits
        bool.splits)

lemma useInput_cases:
  "useInput s escape st
     = (if s = Responding \<and> escape \<and> \<not> turnCancelledRef st
        then st\<lparr>turnCancelledRef := True,
                abortSignals := (case abortControllerRef st of
                                   None \<Rightarrow> abortSignals st
                                 | Some c \<Rightarrow> (abortSignals st)[c := True]),
                history := history st
                  @ (case pendingHistoryItemRef st of
                       Some item \<Rightarrow> [(item, clock st)] | None \<Rightarrow> [])
                  @ [(TextItem INFO ''Request cancelled.'', clock st)],
                pendingHistoryItemRef := None,
                respondingState := False\<rparr>
        else st)"
  by (cases "abortControllerRef st"; cases "pendingHistoryItemRef st")
     (simp_all add: useInput_def abortCurrent_def addItem_def setPendingHistoryItem_def Let_def)

lemma finallyCleanup_flag:
  "turnCancelledRef (finallyCleanup ts st) = turnCancelledRef st"
  by (auto simp: finallyCleanup_def setPendingHistoryItem_def addItem_def Let_def
      split: option.splits)

lemma tryStream_flag:
  "turnCancelledRef (snd (snd (tryStream d inp q ts signal st))) = turnCancelledRef st"
  using tryStream_frame[of st inp q signal d ts] by (simp add: unchangedByStream_def)

lemma startTurn_flag: "\<not> turnCancelledRef (snd (startTurn st))"
  by (simp add: startTurn_def newAbortController_def)

text \<open>
  Every call that passes the gate and returns leaves the flag unset: it is reset at the
  start of the turn and nothing sets it during the call.
\<close>

lemma submitQuery_empty_queue_resets_flag:
  assumes "messageQueue r = []" and "isContinuation \<or> renderStreamingState r = Idle"
  shows "map_option turnCancelledRef (submitQuery d r world query isContinuation st) = Some False"
proof -
  obtain signal st1 where start: "startTurn st = (signal, st1)"
    by (cases "startTurn st") auto
  with startTurn_flag[of st] have f1: "\<not> turnCancelledRef st1" by simp
  obtain qs st2 where prep: "prepareQueryForGemini d (world (turnsStarted st1)) query (clock st1)
      signal (st1\<lparr>respondingState := True, thoughtState := None\<rparr>) = (qs, st2)"
    by (cases "prepareQueryForGemini d (world (turnsStarted st1)) query (clock st1)
      signal (st1\<lparr>respondingState := True, thoughtState := None\<rparr>)") auto
  from prepareQueryForGemini_refs[of d "world (turnsStarted st1)" query "clock st1" signal
      "st1\<lparr>respondingState := True, thoughtState := None\<rparr>"] prep f1
  have f2: "\<not> turnCancelledRef st2" by simp
  show ?thesis
  proof (cases qs)
    case None
    with start prep f2 show ?thesis
      by (simp add: submitQuery_empty_queue[OF assms])
  next
    case (Some queryToSend)
    obtain hasError stat st3 where run:
      "tryStream d (world (turnsStarted st1)) queryToSend (clock st1) signal st2
         = (hasError, stat, st3)"
      by (cases "tryStream d (world (turnsStarted st1)) queryToSend (clock st1) signal st2") auto
    from tryStream_flag[of d "world (turnsStarted st1)" queryToSend "clock st1" signal st2] run f2
    have "\<not> turnCancelledRef st3" by simp
    with start prep Some run show ?thesis
      by (simp add: submitQuery_empty_queue[OF assms] finallyCleanup_flag)
  qed
qed

lemma submitQuery_continuation_resets_flag:
  assumes "toolCalls r \<noteq> []"
  shows "map_option turnCancelledRef (submitQuery d r world (Many ps) True st) = Some False"
proof -
  obtain signal st1 where start: "startTurn st = (signal, st1)"
    by (cases "startTurn st") auto
  with startTurn_flag[of st] have f1: "\<not> turnCancelledRef st1" by simp
  obtain hasError stat st3 where run:
    "tryStream d (world (turnsStarted st1)) (Many ps) (clock st1) signal
       (st1\<lparr>respondingState := True, thoughtState := None\<rparr>) = (hasError, stat, st3)"
    by (cases "tryStream d (world (turnsStarted st1)) (Many ps) (clock st1) signal
       (st1\<lparr>respondingState := True, thoughtState := None\<rparr>)") auto
  from tryStream_flag[of d "world (turnsStarted st1)" "Many ps" "clock st1" signal
      "st1\<lparr>respondingState := True, thoughtState := None\<rparr>"] run f1
  have "\<not> turnCancelledRef st3" by simp
  with start run show ?thesis
    by (simp add: submitQuery_continuation_parts[OF assms] finallyCleanup_flag)
qed

section \<open>The claims\<close>

text \<open>
  C1. A call of \<open>submitQuery\<close> that is not a continuation, made while the derived
  streaming state is \<open>Responding\<close> or \<open>WaitingForConfirmation\<close>, returns with every
  field of the state as it was except the message queue: no stream is opened, no turn
  is started, the cancellation flag and the abort controller stay. A textual query is
  split at its line feeds and its non-blank lines are appended to the queue in order;
  no other line is left out. (\<open>split_newline_join\<close> and \<open>split_newline_pieces\<close> say that
  the pieces are the lines of the query.)
\<close>

theorem C1_submit_while_active_enqueues:
  assumes "renderStreamingState r = Responding \<or> renderStreamingState r = WaitingForConfirmation"
  shows "submitQuery d r world query False st
           = Some (st\<lparr>queueState := queueState st
                        @ (case query of
                             Single (PartString s) \<Rightarrow>
                               filter (\<lambda>line. trim line \<noteq> []) (split_newline s)
                           | _ \<Rightarrow> [])\<rparr>)"
proof -
  have "enqueueQuery query st
          = st\<lparr>queueState := queueState st
                  @ (case query of
                       Single (PartString s) \<Rightarrow>
                         filter (\<lambda>line. trim line \<noteq> []) (split_newline s)
                     | _ \<Rightarrow> [])\<rparr>"
    by (simp add: enqueueQuery_def Let_def split: part_list_union.splits part_union.splits)
  with submitQuery_busy[OF assms] show ?thesis by simp
qed

theorem C1_witness:
  "renderStreamingState busyRender = Responding
   \<and> submitQuery sampleDeps busyRender sampleWorld
        (Single (PartString ''line1\<newline>  \<newline>line2'')) False midTurnState
       = Some (midTurnState\<lparr>queueState := [''line1'', ''line2'']\<rparr>)"
proof -
  have busy: "renderStreamingState busyRender = Responding"
    by (simp add: busyRender_def renderStreamingState_def streamingState_def)
  then have "renderStreamingState busyRender = Responding
             \<or> renderStreamingState busyRender = WaitingForConfirmation" ..
  from C1_submit_while_active_enqueues[OF this, of sampleDeps sampleWorld
      "Single (PartString ''line1\<newline>  \<newline>line2'')" midTurnState] busy
  show ?thesis
    by (simp add: trim_def isWhiteSpace_def midTurnState_def initialState_def)
qed

text \<open>
  C2. The claim fails: nothing in the effect remembers what it has submitted. The
  effect reads the tracked calls of its render; when it fires twice before a render
  shows the flag, it marks the same call and sends its response both times. Here the
  second firing starts in the state that the first has left.
\<close>

theorem C2_counterexample:
  "Option.bind (toolCompletionEffect sampleDeps completedRender sampleWorld initialState)
     (toolCompletionEffect sampleDeps completedRender sampleWorld)
   = Some (initialState
            \<lparr>turnsStarted := 2,
             abortSignals := [False, False],
             history := [(TextItem GEMINI ''4'', 0), (TextItem GEMINI ''4'', 0)],
             submittedMarks := [[''call-1''], [''call-1''], [''call-1''], [''call-1'']],
             openedStreams := [(Many [PartObject (Part ''file contents'')], 0),
                               (Many [PartObject (Part ''file contents'')], 1)]\<rparr>)"
proof -
  have tracked: "toolCalls completedRender \<noteq> []"
    by (simp add: completedRender_def)
  have due: "filter completedAndUnsubmitted (toolCalls completedRender) = [completedCall]"
    by (simp add: completedRender_def completedCall_def completedAndUnsubmitted_def)
  have payload: "mergePartListUnions [responseParts completedCall]
                   = Many [PartObject (Part ''file contents'')]"
    by (simp add: mergePartListUnions_def completedCall_def)
  have ids: "callId (request completedCall) = ''call-1''"
    by (simp add: completedCall_def sampleRequest_def)
  have firing: "toolCompletionEffect sampleDeps completedRender sampleWorld st
      = Some (st\<lparr>turnsStarted := Suc (turnsStarted st),
                 turnCancelledRef := False,
                 abortSignals := abortSignals st @ [False],
                 abortControllerRef := None,
                 respondingState := False,
                 thoughtState := None,
                 pendingHistoryItemRef := None,
                 history := history st @ [(TextItem GEMINI ''4'', clock st)],
                 submittedMarks := submittedMarks st @ [[''call-1''], [''call-1'']],
                 openedStreams := openedStreams st
                   @ [(Many [PartObject (Part ''file contents'')], length (abortSignals st))]\<rparr>)"
    if "pendingHistoryItemRef st = None" for st
    using that
    by (simp add: toolCompletionEffect_def due payload ids Let_def
        submitQuery_continuation_parts[OF tracked]
        markToolsAsSubmitted_def startTurn_def newAbortController_def
        sampleWorld_def sampleInputs_def sampleDeps_def tryStream_def
        processGeminiStreamEvents_def handleContentEvent_def pendingType_def
        setPendingHistoryItem_def currentPendingType_def sampleSplitPoint_def
        finallyCleanup_def addItem_def)
  show ?thesis
    by (simp add: firing initialState_def)
qed

text \<open>
  C2 as amended. One firing of the completion effect handles the tracked calls of its
  render that are terminal with the flag unset, in the order of the list. If there are
  none it does nothing. Otherwise it marks their ids (before and after the call) and
  re-enters \<open>submitQuery\<close> once as a continuation: one turn is started and, unless the
  memory refresh throws, one stream is opened, with the merged responses of exactly
  these calls. A call whose flag is set is not among them, and the list that shows the
  marking has no call left to submit, so that the firing which sees it does nothing.
\<close>

theorem C2_one_submission_per_firing:
  "let due = filter completedAndUnsubmitted (toolCalls r);
       ids = map (\<lambda>tool. callId (request tool)) due;
       payload = mergePartListUnions (map responseParts due)
   in (due = [] \<longrightarrow> toolCompletionEffect d r world st = Some st)
      \<and> (due \<noteq> [] \<longrightarrow>
           (\<exists>st'. toolCompletionEffect d r world st = Some st'
                  \<and> submittedMarks st' = submittedMarks st @ [ids, ids]
                  \<and> turnsStarted st' = Suc (turnsStarted st)
                  \<and> openedStreams st'
                      = openedStreams st
                        @ (if refreshFailure (world (Suc (turnsStarted st))) = None
                           then [(payload, length (abortSignals st))] else [])))
      \<and> (\<forall>tc \<in> set due. \<not> responseSubmittedToGemini tc)
      \<and> toolCompletionEffect d (r\<lparr>toolCalls := markSubmitted ids (toolCalls r)\<rparr>) world st
          = Some st"
proof -
  define due where "due = filter completedAndUnsubmitted (toolCalls r)"
  define ids where "ids = map (\<lambda>tool. callId (request tool)) due"
  define payload where "payload = mergePartListUnions (map responseParts due)"
  have none: "toolCompletionEffect d r world st = Some st" if "due = []"
    using that by (simp add: toolCompletionEffect_def due_def[symmetric] Let_def)
  have some: "\<exists>st'. toolCompletionEffect d r world st = Some st'
                  \<and> submittedMarks st' = submittedMarks st @ [ids, ids]
                  \<and> turnsStarted st' = Suc (turnsStarted st)
                  \<and> openedStreams st'
                      = openedStreams st
                        @ (if refreshFailure (world (Suc (turnsStarted st))) = None
                           then [(payload, length (abortSignals st))] else [])"
    if nonempty: "due \<noteq> []"
  proof -
    from nonempty have tracked: "toolCalls r \<noteq> []"
      by (auto simp: due_def)
    obtain ps where parts: "payload = Many ps"
      by (simp add: payload_def mergePartListUnions_def)
    define st0 where "st0 = markToolsAsSubmitted ids st"
    obtain signal st1 where start: "startTurn st0 = (signal, st1)"
      by (cases "startTurn st0") auto
    then have s1: "signal = length (abortSignals st)" "turnsStarted st1 = Suc (turnsStarted st)"
      "submittedMarks st1 = submittedMarks st @ [ids]" "openedStreams st1 = openedStreams st"
      by (auto simp: startTurn_def newAbortController_def st0_def markToolsAsSubmitted_def)
    define st2 where "st2 = st1\<lparr>respondingState := True, thoughtState := None\<rparr>"
    obtain hasError stat st3 where run:
      "tryStream d (world (turnsStarted st1)) payload (clock st1) signal st2 = (hasError, stat, st3)"
      by (cases "tryStream d (world (turnsStarted st1)) payload (clock st1) signal st2") auto
    from tryStream_frame[of st2 "world (turnsStarted st1)" payload signal d "clock st1"] run s1
    have s3: "submittedMarks st3 = submittedMarks st @ [ids]"
      "turnsStarted st3 = Suc (turnsStarted st)"
      "openedStreams st3 = openedStreams st
         @ (if refreshFailure (world (Suc (turnsStarted st))) = None
            then [(payload, length (abortSignals st))] else [])"
      by (simp_all add: unchangedByStream_def st2_def)
    have call: "submitQuery d r world payload True st0 = Some (finallyCleanup (clock st1) st3)"
      using start run
      by (simp add: parts[symmetric] submitQuery_continuation_parts[OF tracked, of d world ps st0,
            folded parts] st2_def)
    have "toolCompletionEffect d r world st
            = Some (markToolsAsSubmitted ids (finallyCleanup (clock st1) st3))"
      using nonempty call
      by (simp add: toolCompletionEffect_def due_def[symmetric] ids_def[symmetric]
          payload_def[symmetric] st0_def[symmetric] Let_def)
    then show ?thesis
      using s3 by (simp add: markToolsAsSubmitted_def finallyCleanup_frame)
  qed
  have unflagged: "\<forall>tc \<in> set due. \<not> responseSubmittedToGemini tc"
    by (simp add: due_def completedAndUnsubmitted_def)
  have marked: "toolCompletionEffect d (r\<lparr>toolCalls := markSubmitted ids (toolCalls r)\<rparr>) world st
                  = Some st"
    using markSubmitted_nothing_due[of "toolCalls r"]
    by (simp add: toolCompletionEffect_def ids_def due_def Let_def)
  show ?thesis
    unfolding Let_def due_def[symmetric] ids_def[symmetric] payload_def[symmetric]
    using none some unflagged marked by blast
qed

theorem C2_witness:
  "filter completedAndUnsubmitted (toolCalls completedRender) = [completedCall]
   \<and> (\<exists>st'. toolCompletionEffect sampleDeps completedRender sampleWorld initialState = Some st'
           \<and> submittedMarks st' = [[''call-1''], [''call-1'']]
           \<and> turnsStarted st' = 1
           \<and> openedStreams st' = [(Many [PartObject (Part ''file contents'')], 0)])
   \<and> toolCompletionEffect sampleDeps
        (completedRender\<lparr>toolCalls := markSubmitted [''call-1''] (toolCalls completedRender)\<rparr>)
        sampleWorld initialState = Some initialState
   \<and> toolCompletionEffect sampleDeps idleRender sampleWorld initialState = Some initialState"
proof -
  have due: "filter completedAndUnsubmitted (toolCalls completedRender) = [completedCall]"
    by (simp add: completedRender_def completedCall_def completedAndUnsubmitted_def)
  have none: "filter completedAndUnsubmitted (toolCalls idleRender) = []"
    by (simp add: idleRender_def)
  have payload: "mergePartListUnions [responseParts completedCall]
                   = Many [PartObject (Part ''file contents'')]"
    by (simp add: mergePartListUnions_def completedCall_def)
  have ids: "callId (request completedCall) = ''call-1''"
    by (simp add: completedCall_def sampleRequest_def)
  have quiet: "refreshFailure (sampleWorld (Suc 0)) = None"
    by (simp add: sampleWorld_def sampleInputs_def)
  from C2_one_submission_per_firing[of completedRender sampleDeps sampleWorld initialState]
    C2_one_submission_per_firing[of idleRender sampleDeps sampleWorld initialState]
  show ?thesis
    by (simp add: due none payload ids quiet Let_def initialState_def)
qed

text \<open>
  C3. The code falls short of the claim and of its own comment. The user submits a question to an idle hook with an
  empty queue; while the answer streams, the lines \<open>a\<close> and \<open>b\<close> are queued by the
  callback of a later render (as in C1). The running call does not read the live queue
  (\<open>submitQuery_empty_queue_commutes\<close>), so the lines are put into the live queue
  before the call here. The turn completes: it is not cancelled, has no error and
  leaves no tool call, and the queue is not empty. The pending item is flushed and the
  turn is inactive, but the queue test of the \<^verbatim>\<open>finally\<close> block reads the queue of
  the render in which the call was made, which is empty: nothing is dequeued, no second
  turn is started, and both lines stay in the queue.
\<close>

theorem C3_queue_not_drained_on_completion:
  "submitQuery sampleDeps idleRender sampleWorld (Single (PartString ''What is 2+2?'')) False
     (initialState\<lparr>queueState := [''a'', ''b'']\<rparr>)
   = Some (initialState
            \<lparr>queueState := [''a'', ''b''],
             turnsStarted := 1,
             abortSignals := [False],
             history := [(TextItem USER ''What is 2+2?'', 0), (TextItem GEMINI ''4'', 0)],
             openedStreams := [(Single (PartString ''What is 2+2?''), 0)]\<rparr>)"
proof -
  have empty: "messageQueue idleRender = []"
    by (simp add: idleRender_def)
  have idle: "False \<or> renderStreamingState idleRender = Idle"
    by (simp add: idleRender_def renderStreamingState_def streamingState_def)
  have trimmed: "trim ''What is 2+2?'' = ''What is 2+2?''"
    by (simp add: trim_def isWhiteSpace_def)
  show ?thesis
    unfolding submitQuery_empty_queue[OF empty idle]
    by (simp add: startTurn_def newAbortController_def initialState_def sampleWorld_def
        sampleInputs_def sampleDeps_def prepareQueryForGemini_def trimmed addItem_def
        tryStream_def processGeminiStreamEvents_def handleContentEvent_def pendingType_def
        setPendingHistoryItem_def currentPendingType_def sampleSplitPoint_def
        finallyCleanup_def Let_def)
qed

text \<open>
  C4. The derived streaming state is a function of the render's turn-active flag and
  its tracked tool calls alone, and it is the function that the specification describes.
\<close>

theorem C4_streaming_state_derived:
  "renderStreamingState r = spec_streamingState (isResponding r) (toolCalls r)"
  unfolding renderStreamingState_def streamingState_def spec_streamingState_def list_ex_iff
  by auto

theorem C4_witness:
  "renderStreamingState completedRender = Responding
   \<and> renderStreamingState waitingRender = WaitingForConfirmation
   \<and> renderStreamingState idleRender = Idle"
  using C4_streaming_state_derived[of completedRender]
    C4_streaming_state_derived[of waitingRender]
    C4_streaming_state_derived[of idleRender]
  by (simp add: spec_streamingState_def completedRender_def waitingRender_def idleRender_def
      completedCall_def awaitingCall_def)

text \<open>
  C5. The claim fails in both of its parts. Only the \<^verbatim>\<open>Content\<close> and
  \<^verbatim>\<open>UserCancelled\<close> handlers read the cancellation flag: after the escape key has
  cancelled the turn, an \<^verbatim>\<open>Error\<close> event still appends an entry to the history. And
  the flag is one ref of the hook, which every call of \<open>submitQuery\<close> that passes the
  gate resets: in the cancelled turn, whose call still holds its abort controller, the
  continuation that the completion effect starts for a cancelled tool call resets it,
  and so does a new submission made in the idle render that follows the escape key.
\<close>

theorem C5_counterexample:
  "turnCancelledRef cancelledState
   \<and> abortControllerRef cancelledState = Some 0
   \<and> history (snd (snd (handleEvent sampleDeps 0 (ErrorEvent ''quota'') ([], [], cancelledState))))
       = history cancelledState @ [(TextItem ERROR ''[API Error: quota]'', 0)]
   \<and> map_option turnCancelledRef
        (toolCompletionEffect sampleDeps cancelledRender sampleWorld cancelledState) = Some False
   \<and> map_option turnCancelledRef
        (submitQuery sampleDeps idleRender sampleWorld (Single (PartString ''next'')) False
           cancelledState) = Some False"
proof -
  have flag: "turnCancelledRef cancelledState" "abortControllerRef cancelledState = Some 0"
    by (simp_all add: cancelledState_def)
  have entry: "history (snd (snd (handleEvent sampleDeps 0 (ErrorEvent ''quota'')
                  ([], [], cancelledState))))
                 = history cancelledState @ [(TextItem ERROR ''[API Error: quota]'', 0)]"
    by (simp add: cancelledState_def initialState_def handleErrorEvent_def addItem_def
        sampleDeps_def)
  have tracked: "toolCalls cancelledRender \<noteq> []"
    by (simp add: cancelledRender_def)
  have due: "filter completedAndUnsubmitted (toolCalls cancelledRender) = [cancelledCall]"
    by (simp add: cancelledRender_def cancelledCall_def completedAndUnsubmitted_def)
  have payload: "mergePartListUnions [responseParts cancelledCall]
                   = Many [PartObject (Part ''operation cancelled'')]"
    by (simp add: mergePartListUnions_def cancelledCall_def)
  have continuation: "map_option turnCancelledRef
        (toolCompletionEffect sampleDeps cancelledRender sampleWorld cancelledState) = Some False"
    using submitQuery_continuation_resets_flag[OF tracked, of sampleDeps sampleWorld
        "[PartObject (Part ''operation cancelled'')]"
        "markToolsAsSubmitted [callId (request cancelledCall)] cancelledState"]
    by (auto simp: toolCompletionEffect_def due payload Let_def markToolsAsSubmitted_def
        split: option.splits)
  have empty: "messageQueue idleRender = []"
    by (simp add: idleRender_def)
  have idle: "False \<or> renderStreamingState idleRender = Idle"
    by (simp add: idleRender_def renderStreamingState_def streamingState_def)
  from flag entry continuation submitQuery_empty_queue_resets_flag[OF empty idle]
  show ?thesis by simp
qed

text \<open>
  C5 as amended. Once the flag is set, nothing resets it but the start of a turn in
  \<open>submitQuery\<close>, that is a call that passes the gate: no event of the stream and no
  step of the stream processor, of the \<^verbatim>\<open>try\<close> block with its \<^verbatim>\<open>catch\<close> clause or
  of the \<^verbatim>\<open>finally\<close> block resets it, nor does a key press, the preprocessing (which
  stops at once) or a submission that is queued at the gate. While the flag is set, a
  \<^verbatim>\<open>Content\<close> event changes nothing of the state and hands the empty buffer on, and a
  \<^verbatim>\<open>UserCancelled\<close> event changes nothing at all. The other events are handled as
  before cancellation: a \<^verbatim>\<open>Thought\<close> replaces the current thought, an \<^verbatim>\<open>Error\<close>
  flushes the pending item and appends an error entry, a \<^verbatim>\<open>ChatCompressed\<close> appends
  its notice.
\<close>

theorem C5_cancelled_turn_events:
  assumes "turnCancelledRef st"
  shows "turnCancelledRef (snd (snd (streamLoop d ts evs (buf, reqs, st))))
         \<and> turnCancelledRef (snd (processGeminiStreamEvents d s ts signal st))
         \<and> turnCancelledRef (snd (snd (tryStream d inp queryToSend ts signal st)))
         \<and> turnCancelledRef (finallyCleanup ts st)
         \<and> turnCancelledRef (useInput state escape st)
         \<and> prepareQueryForGemini d inp query ts signal st = (None, st)
         \<and> (renderStreamingState r = Responding \<or> renderStreamingState r = WaitingForConfirmation
              \<longrightarrow> map_option turnCancelledRef (submitQuery d r world query False st) = Some True)
         \<and> \<not> turnCancelledRef (snd (startTurn st))
         \<and> handleEvent d ts (ContentEvent delta) (buf, reqs, st) = ([], reqs, st)
         \<and> handleEvent d ts UserCancelledEvent (buf, reqs, st) = (buf, reqs, st)
         \<and> handleEvent d ts (ThoughtEvent t) (buf, reqs, st)
             = (buf, reqs, st\<lparr>thoughtState := Some t\<rparr>)
         \<and> handleEvent d ts (ErrorEvent e) (buf, reqs, st)
             = (buf, reqs,
                st\<lparr>pendingHistoryItemRef := None,
                   history := history st
                     @ (case pendingHistoryItemRef st of Some item \<Rightarrow> [(item, ts)] | None \<Rightarrow> [])
                     @ [(TextItem ERROR (parseAndFormatApiError d e (authType d)), ts)]\<rparr>)
         \<and> handleEvent d ts (ChatCompressedEvent c) (buf, reqs, st)
             = (buf, reqs,
                st\<lparr>history := history st
                     @ [(TextItem INFO
                           (''IMPORTANT: This conversation approached the input token limit for ''
                            @ getModel d @ ''. ''
                            @ ''A compressed context will be sent for future messages (compressed from: ''
                            @ tokenCountText c originalTokenCount @ '' to ''
                            @ tokenCountText c newTokenCount @ '' tokens).''),
                         clock st)]\<rparr>)"
proof -
  obtain b1 r1 s1 where loop: "streamLoop d ts evs (buf, reqs, st) = (b1, r1, s1)"
    by (cases "streamLoop d ts evs (buf, reqs, st)") auto
  from streamLoop_frame[OF loop] assms
  have kept: "turnCancelledRef (snd (snd (streamLoop d ts evs (buf, reqs, st))))"
    by (simp add: loop unchangedByEvents_def)
  have processor: "turnCancelledRef (snd (processGeminiStreamEvents d s ts signal st))"
    using processGeminiStreamEvents_frame[of st d s ts signal] assms
    by (simp add: unchangedByStream_def)
  have attempt: "turnCancelledRef (snd (snd (tryStream d inp queryToSend ts signal st)))"
    using assms by (simp add: tryStream_flag)
  have fin: "turnCancelledRef (finallyCleanup ts st)"
    using assms by (simp add: finallyCleanup_flag)
  have key: "turnCancelledRef (useInput state escape st)"
    using assms by (simp add: useInput_def)
  have prep: "prepareQueryForGemini d inp query ts signal st = (None, st)"
    using assms by (simp add: prepareQueryForGemini_def)
  have gate: "map_option turnCancelledRef (submitQuery d r world query False st) = Some True"
    if "renderStreamingState r = Responding \<or> renderStreamingState r = WaitingForConfirmation"
    using submitQuery_busy[OF that, of d world query st] assms
    by (simp add: enqueueQuery_def Let_def split: part_list_union.splits part_union.splits)
  have content: "handleEvent d ts (ContentEvent delta) (buf, reqs, st) = ([], reqs, st)"
    using assms by (simp add: handleContentEvent_def)
  have cancel: "handleEvent d ts UserCancelledEvent (buf, reqs, st) = (buf, reqs, st)"
    using assms by (simp add: handleUserCancelledEvent_def)
  have err: "handleEvent d ts (ErrorEvent e) (buf, reqs, st)
             = (buf, reqs,
                st\<lparr>pendingHistoryItemRef := None,
                   history := history st
                     @ (case pendingHistoryItemRef st of Some item \<Rightarrow> [(item, ts)] | None \<Rightarrow> [])
                     @ [(TextItem ERROR (parseAndFormatApiError d e (authType d)), ts)]\<rparr>)"
    by (cases "pendingHistoryItemRef st")
       (simp_all add: handleErrorEvent_def addItem_def setPendingHistoryItem_def)
  have compressed: "handleEvent d ts (ChatCompressedEvent c) (buf, reqs, st)
             = (buf, reqs,
                st\<lparr>history := history st
                     @ [(TextItem INFO
                           (''IMPORTANT: This conversation approached the input token limit for ''
                            @ getModel d @ ''. ''
                            @ ''A compressed context will be sent for future messages (compressed from: ''
                            @ tokenCountText c originalTokenCount @ '' to ''
                            @ tokenCountText c newTokenCount @ '' tokens).''),
                         clock st)]\<rparr>)"
    by (simp add: handleChatCompressionEvent_def addItem_def)
  from kept processor attempt fin key prep gate startTurn_flag[of st] content cancel err compressed
  show ?thesis by simp
qed

theorem C5_witness:
  "turnCancelledRef cancelledState
   \<and> handleEvent sampleDeps 0 (ContentEvent ''lo'') (''Hel'', [], cancelledState)
       = ([], [], cancelledState)
   \<and> handleEvent sampleDeps 0 UserCancelledEvent (''Hel'', [], cancelledState)
       = (''Hel'', [], cancelledState)
   \<and> turnCancelledRef
       (snd (processGeminiStreamEvents sampleDeps
               \<lparr>events = [ContentEvent ''lo'', ErrorEvent ''quota''], failure = None\<rparr>
               0 0 cancelledState))
   \<and> turnCancelledRef (finallyCleanup 0 cancelledState)
   \<and> renderStreamingState busyRender = Responding
   \<and> map_option turnCancelledRef
        (submitQuery sampleDeps busyRender sampleWorld (Single (PartString ''more'')) False
           cancelledState) = Some True
   \<and> \<not> turnCancelledRef (snd (startTurn cancelledState))"
proof -
  have flag: "turnCancelledRef cancelledState"
    by (simp add: cancelledState_def)
  have busy: "renderStreamingState busyRender = Responding"
    by (simp add: busyRender_def renderStreamingState_def streamingState_def)
  from C5_cancelled_turn_events[OF flag, where d = sampleDeps and ts = 0 and buf = "''Hel''"
      and reqs = "[]" and delta = "''lo''" and signal = 0 and r = busyRender
      and world = sampleWorld and query = "Single (PartString ''more'')"
      and s = "\<lparr>events = [ContentEvent ''lo'', ErrorEvent ''quota''], failure = None\<rparr>"]
  show ?thesis
    using flag busy by simp
qed

text \<open>
  C6. While a model text item is pending and the turn is not cancelled, the buffer of a
  \<^verbatim>\<open>Content\<close> event is the carried buffer followed by the delta. With a splitter that
  keeps its contract the split point lies between \<open>0\<close> and the buffer's length. At the
  length, nothing reaches the history and the whole buffer is the pending item. Below
  it, exactly the prefix up to the split point is appended to the history, the rest is
  the pending item, and the rest is what the loop carries to the next event.
\<close>

theorem C6_split_point:
  assumes contract: "splitContract (findLastSafeSplitPoint d)"
    and live: "\<not> turnCancelledRef st"
    and pending: "pendingHistoryItemRef st = Some (TextItem ty shown)"
    and model_text: "ty = GEMINI \<or> ty = GEMINI_CONTENT"
  shows "let buffer = currentBuffer @ delta;
             index = findLastSafeSplitPoint d buffer;
             flushed = take (nat index) buffer;
             kept = drop (nat index) buffer
         in 0 \<le> index \<and> index \<le> int (length buffer)
            \<and> (index = int (length buffer) \<longrightarrow>
                 handleContentEvent d delta currentBuffer ts st
                   = (buffer, st\<lparr>pendingHistoryItemRef := Some (TextItem ty buffer)\<rparr>))
            \<and> (index < int (length buffer) \<longrightarrow>
                 handleContentEvent d delta currentBuffer ts st
                   = (kept, st\<lparr>pendingHistoryItemRef := Some (TextItem GEMINI_CONTENT kept),
                               history := history st @ [(TextItem ty flushed, ts)]\<rparr>)
                 \<and> flushed @ kept = buffer)
            \<and> handleEvent d ts (ContentEvent delta) (currentBuffer, reqs, st)
                = (fst (handleContentEvent d delta currentBuffer ts st), reqs,
                   snd (handleContentEvent d delta currentBuffer ts st))"
proof -
  define buffer where "buffer = currentBuffer @ delta"
  define index where "index = findLastSafeSplitPoint d buffer"
  have bounds: "0 \<le> index" "index \<le> int (length buffer)"
    using contract by (simp_all add: splitContract_def index_def)
  have ptype: "pendingType (pendingHistoryItemRef st) = Some ty"
    by (simp add: pending pendingType_def)
  have cur: "currentPendingType st = ty"
    by (simp add: pending currentPendingType_def)
  have whole: "handleContentEvent d delta currentBuffer ts st
                 = (buffer, st\<lparr>pendingHistoryItemRef := Some (TextItem ty buffer)\<rparr>)"
    if "index = int (length buffer)"
    using that live model_text ptype cur
    by (auto simp: handleContentEvent_def Let_def setPendingHistoryItem_def
        buffer_def index_def)
  have cut: "handleContentEvent d delta currentBuffer ts st
               = (drop (nat index) buffer,
                  st\<lparr>pendingHistoryItemRef := Some (TextItem GEMINI_CONTENT (drop (nat index) buffer)),
                     history := history st @ [(TextItem ty (take (nat index) buffer), ts)]\<rparr>)"
    if "index < int (length buffer)"
    using that live model_text ptype cur bounds(1)
    by (auto simp: handleContentEvent_def Let_def setPendingHistoryItem_def addItem_def
        substring_prefix substring_from_suffix buffer_def index_def)
  have loop: "handleEvent d ts (ContentEvent delta) (currentBuffer, reqs, st)
                = (fst (handleContentEvent d delta currentBuffer ts st), reqs,
                   snd (handleContentEvent d delta currentBuffer ts st))"
    by (simp add: case_prod_unfold)
  show ?thesis
    unfolding Let_def buffer_def[symmetric] index_def[symmetric]
    using bounds whole cut loop by simp
qed

theorem C6_witness:
  "splitContract (findLastSafeSplitPoint sampleDeps)
   \<and> \<not> turnCancelledRef midTurnState
   \<and> pendingHistoryItemRef midTurnState = Some (TextItem GEMINI ''Hel'')
   \<and> handleContentEvent sampleDeps ''lo!'' ''Hel'' 7 midTurnState
       = (''o!'', midTurnState\<lparr>pendingHistoryItemRef := Some (TextItem GEMINI_CONTENT ''o!''),
                              history := [(TextItem GEMINI ''Hell'', 7)]\<rparr>)
   \<and> handleContentEvent sampleDeps ''l'' ''Hel'' 7 midTurnState
       = (''Hell'', midTurnState\<lparr>pendingHistoryItemRef := Some (TextItem GEMINI ''Hell'')\<rparr>)"
proof -
  have contract: "splitContract (findLastSafeSplitPoint sampleDeps)"
    by (simp add: sampleDeps_def sampleSplitPoint_contract)
  have live: "\<not> turnCancelledRef midTurnState"
    by (simp add: midTurnState_def initialState_def)
  have pending: "pendingHistoryItemRef midTurnState = Some (TextItem GEMINI ''Hel'')"
    by (simp add: midTurnState_def)
  have split: "findLastSafeSplitPoint sampleDeps ''Hello!'' = 4"
    and whole: "findLastSafeSplitPoint sampleDeps ''Hell'' = 4"
    by (simp_all add: sampleDeps_def sampleSplitPoint_def)
  have hist: "history midTurnState = []"
    by (simp add: midTurnState_def initialState_def)
  from C6_split_point[OF contract live pending, where currentBuffer = "''Hel''"
      and delta = "''lo!''" and ts = 7 and reqs = "[]"]
    C6_split_point[OF contract live pending, where currentBuffer = "''Hel''"
      and delta = "''l''" and ts = 7 and reqs = "[]"]
  show ?thesis
    using contract live pending by (simp add: Let_def split whole hist)
qed

text \<open>
  C7. Whatever part of a stream has been consumed, the scheduler has received nothing
  from it: a \<^verbatim>\<open>ToolCallRequest\<close> event only joins the list of the loop. When the stream
  ends, the scheduler receives the requests of the whole stream, in the order of the
  stream, as one batch with the signal of the turn, and nothing if there were none.
\<close>

theorem C7_tool_calls_batched:
  "scheduledBatches (snd (snd (streamLoop d ts (take n evs) ([], [], st)))) = scheduledBatches st
   \<and> fst (snd (streamLoop d ts (take n evs) ([], [], st)))
       = [v. ToolCallRequestEvent v \<leftarrow> take n evs]
   \<and> fst (processGeminiStreamEvents d \<lparr>events = evs, failure = None\<rparr> ts signal st) = Inr Completed
   \<and> scheduledBatches (snd (processGeminiStreamEvents d \<lparr>events = evs, failure = None\<rparr> ts signal st))
       = scheduledBatches st
         @ (if [v. ToolCallRequestEvent v \<leftarrow> evs] = [] then []
            else [([v. ToolCallRequestEvent v \<leftarrow> evs], signal)])"
proof -
  obtain b1 r1 s1 where pre: "streamLoop d ts (take n evs) ([], [], st) = (b1, r1, s1)"
    by (cases "streamLoop d ts (take n evs) ([], [], st)") auto
  obtain b2 r2 s2 where all: "streamLoop d ts evs ([], [], st) = (b2, r2, s2)"
    by (cases "streamLoop d ts evs ([], [], st)") auto
  from streamLoop_frame[OF pre]
  have during: "scheduledBatches s1 = scheduledBatches st"
    "r1 = [v. ToolCallRequestEvent v \<leftarrow> take n evs]"
    by (simp_all add: unchangedByEvents_def)
  from streamLoop_frame[OF all]
  have after: "scheduledBatches s2 = scheduledBatches st" "r2 = [v. ToolCallRequestEvent v \<leftarrow> evs]"
    by (simp_all add: unchangedByEvents_def)
  show ?thesis
    using during after
    by (simp add: pre all processGeminiStreamEvents_def scheduleToolCalls_def)
qed

theorem C7_witness:
  "scheduledBatches
     (snd (snd (streamLoop sampleDeps 7
        (take 2 [ToolCallRequestEvent sampleRequest, ThoughtEvent (''plan'', ''read''),
                 ToolCallRequestEvent otherRequest]) ([], [], midTurnState)))) = []
   \<and> scheduledBatches
       (snd (processGeminiStreamEvents sampleDeps
          \<lparr>events = [ToolCallRequestEvent sampleRequest, ThoughtEvent (''plan'', ''read''),
                     ToolCallRequestEvent otherRequest], failure = None\<rparr> 7 0 midTurnState))
       = [([sampleRequest, otherRequest], 0)]
   \<and> scheduledBatches
       (snd (processGeminiStreamEvents sampleDeps
          \<lparr>events = [ThoughtEvent (''plan'', ''read'')], failure = None\<rparr> 7 0 midTurnState)) = []"
  using C7_tool_calls_batched[of sampleDeps 7 2
      "[ToolCallRequestEvent sampleRequest, ThoughtEvent (''plan'', ''read''),
        ToolCallRequestEvent otherRequest]" midTurnState 0]
    C7_tool_calls_batched[of sampleDeps 7 0 "[ThoughtEvent (''plan'', ''read'')]" midTurnState 0]
  by (simp add: midTurnState_def initialState_def)

text \<open>
  C8. The claim fails where a tool call awaits approval: the turn is active (it is
  streaming, and the derived state is \<open>WaitingForConfirmation\<close>) and not cancelled, yet
  the escape key changes nothing, because the handler acts in the state
  \<open>Responding\<close> only.
\<close>

theorem C8_counterexample:
  "isResponding waitingRender
   \<and> renderStreamingState waitingRender = WaitingForConfirmation
   \<and> \<not> turnCancelledRef midTurnState
   \<and> useInput (renderStreamingState waitingRender) True midTurnState = midTurnState"
  by (simp add: waitingRender_def awaitingCall_def renderStreamingState_def streamingState_def
      useInput_def midTurnState_def initialState_def)

text \<open>
  C8 as amended. When the derived streaming state is \<open>Responding\<close> and the turn has not
  been cancelled, the escape key cancels the turn: it sets the cancellation flag,
  appends the pending item (if any) and then the notice to the history and clears the
  pending item; and while the stream of the turn is open, it signals the abort token of
  the turn, which is the one that the open stream has and that the tool calls of the
  turn are scheduled with (the ref holds its controller from the start of the turn).
  In any other streaming state, for any other key, and when the flag is already set,
  the state stays as it is; so a second escape after an effective one changes nothing.
\<close>

theorem C8_escape_cancels_when_responding:
  "(s = Responding \<and> escape \<and> \<not> turnCancelledRef st \<longrightarrow>
      useInput s escape st
        = st\<lparr>turnCancelledRef := True,
              abortSignals := abortSignals (useInput s escape st),
              history := history st
                @ (case pendingHistoryItemRef st of
                     Some item \<Rightarrow> [(item, clock st)] | None \<Rightarrow> [])
                @ [(TextItem INFO ''Request cancelled.'', clock st)],
              pendingHistoryItemRef := None,
              respondingState := False\<rparr>
      \<and> (\<forall>c. abortControllerRef st = Some c \<longrightarrow>
             abortSignals (useInput s escape st) = (abortSignals st)[c := True]))
   \<and> (\<not> (s = Responding \<and> escape \<and> \<not> turnCancelledRef st) \<longrightarrow> useInput s escape st = st)
   \<and> useInput s' escape' (useInput Responding True st) = useInput Responding True st
   \<and> (startTurn st0 = (signal, st1)
        \<and> prepareQueryForGemini d inp query (clock st1) signal
             (st1\<lparr>respondingState := True, thoughtState := None\<rparr>) = (Some queryToSend, st2)
        \<and> streamLoop d (clock st1) evs
             ([], [], st2\<lparr>openedStreams := openedStreams st2 @ [(queryToSend, signal)]\<rparr>)
             = (buf, reqs, st3)
      \<longrightarrow> openedStreams st3 = openedStreams st0 @ [(queryToSend, signal)]
          \<and> \<not> abortSignals st3 ! signal
          \<and> abortSignals (useInput Responding True st3) ! signal
          \<and> turnCancelledRef (useInput Responding True st3))"
proof -
  have flagged: "turnCancelledRef (useInput Responding True st)"
    by (simp add: useInput_cases)
  have again: "useInput s' escape' x = x" if "turnCancelledRef x" for x
    using that by (simp add: useInput_def)
  have open_stream: "openedStreams st3 = openedStreams st0 @ [(queryToSend, signal)]
          \<and> \<not> abortSignals st3 ! signal
          \<and> abortSignals (useInput Responding True st3) ! signal
          \<and> turnCancelledRef (useInput Responding True st3)"
    if start: "startTurn st0 = (signal, st1)"
      and prep: "prepareQueryForGemini d inp query (clock st1) signal
             (st1\<lparr>respondingState := True, thoughtState := None\<rparr>) = (Some queryToSend, st2)"
      and loop: "streamLoop d (clock st1) evs
             ([], [], st2\<lparr>openedStreams := openedStreams st2 @ [(queryToSend, signal)]\<rparr>)
             = (buf, reqs, st3)"
  proof -
    from start have s1: "signal = length (abortSignals st0)"
      "abortSignals st1 = abortSignals st0 @ [False]" "abortControllerRef st1 = Some signal"
      "\<not> turnCancelledRef st1" "openedStreams st1 = openedStreams st0"
      by (auto simp: startTurn_def newAbortController_def)
    from prepareQueryForGemini_refs[of d inp query "clock st1" signal
        "st1\<lparr>respondingState := True, thoughtState := None\<rparr>"] prep s1
    have s2: "abortSignals st2 = abortSignals st0 @ [False]" "abortControllerRef st2 = Some signal"
      "\<not> turnCancelledRef st2" "openedStreams st2 = openedStreams st0"
      by simp_all
    from streamLoop_frame[OF loop] s2
    have s3: "abortSignals st3 = abortSignals st0 @ [False]" "abortControllerRef st3 = Some signal"
      "\<not> turnCancelledRef st3" "openedStreams st3 = openedStreams st0 @ [(queryToSend, signal)]"
      by (simp_all add: unchangedByEvents_def)
    from s3 s1(1) show ?thesis
      by (simp add: useInput_cases nth_append)
  qed
  from again[OF flagged] open_stream show ?thesis
    by (simp add: useInput_cases)
qed

theorem C8_witness:
  "\<not> turnCancelledRef midTurnState
   \<and> abortControllerRef midTurnState = Some 0
   \<and> useInput Responding True midTurnState = cancelledState
   \<and> abortSignals cancelledState = [True]
   \<and> useInput Responding True cancelledState = cancelledState
   \<and> useInput Idle True midTurnState = midTurnState
   \<and> startTurn initialState = (0, turnStartedState)
   \<and> prepareQueryForGemini sampleDeps sampleInputs (Single (PartString ''Hi'')) 0 0
        (turnStartedState\<lparr>respondingState := True, thoughtState := None\<rparr>)
       = (Some (Single (PartString ''Hi'')), preprocessedState)
   \<and> streamLoop sampleDeps 0 [ContentEvent ''Hel'']
        ([], [], preprocessedState\<lparr>openedStreams := [(Single (PartString ''Hi''), 0)]\<rparr>)
       = (''Hel'', [], openStreamState)
   \<and> abortSignals (useInput Responding True openStreamState) ! 0"
proof -
  have live: "\<not> turnCancelledRef midTurnState" and held: "abortControllerRef midTurnState = Some 0"
    by (simp_all add: midTurnState_def initialState_def)
  have start: "startTurn initialState = (0, turnStartedState)"
    by (simp add: startTurn_def newAbortController_def initialState_def turnStartedState_def)
  have clk: "clock turnStartedState = 0"
    by (simp add: turnStartedState_def initialState_def)
  have trimmed: "trim ''Hi'' = ''Hi''"
    by (simp add: trim_def isWhiteSpace_def)
  have prep: "prepareQueryForGemini sampleDeps sampleInputs (Single (PartString ''Hi'')) 0 0
                (turnStartedState\<lparr>respondingState := True, thoughtState := None\<rparr>)
              = (Some (Single (PartString ''Hi'')), preprocessedState)"
    by (simp add: prepareQueryForGemini_def trimmed sampleInputs_def sampleDeps_def Let_def
        addItem_def preprocessedState_def turnStartedState_def initialState_def)
  have opened: "openedStreams preprocessedState = []"
    by (simp add: preprocessedState_def turnStartedState_def initialState_def)
  have loop: "streamLoop sampleDeps 0 [ContentEvent ''Hel'']
                ([], [], preprocessedState\<lparr>openedStreams := [(Single (PartString ''Hi''), 0)]\<rparr>)
              = (''Hel'', [], openStreamState)"
    by (simp add: handleContentEvent_def pendingType_def setPendingHistoryItem_def
        currentPendingType_def sampleDeps_def sampleSplitPoint_def Let_def
        openStreamState_def preprocessedState_def turnStartedState_def initialState_def)
  from C8_escape_cancels_when_responding[where s = Responding and escape = True and st = midTurnState
      and s' = Responding and escape' = True]
    C8_escape_cancels_when_responding[where s = Idle and escape = True and st = midTurnState]
    C8_escape_cancels_when_responding[where ?st0.0 = initialState and signal = 0 and ?st1.0 = turnStartedState
      and d = sampleDeps and inp = sampleInputs and query = "Single (PartString ''Hi'')"
      and queryToSend = "Single (PartString ''Hi'')" and ?st2.0 = preprocessedState
      and evs = "[ContentEvent ''Hel'']" and buf = "''Hel''" and reqs = "[]"
      and ?st3.0 = openStreamState]
    start prep loop live held
  show ?thesis
    by (simp add: clk opened midTurnState_def cancelledState_def initialState_def)
qed

text \<open>
  Not part of the amended claim: once the stream has ended, the \<^verbatim>\<open>finally\<close> block has
  cleared the ref, while the scheduler still holds the signal of the batch. With a call
  of the batch executing the derived state is \<open>Responding\<close>; the escape key then sets
  the flag and appends the notice, but signals nothing.
\<close>

lemma escape_after_stream_end:
  "submitQuery sampleDeps idleRender toolWorld (Single (PartString ''read it'')) False initialState
     = Some toolsScheduledState
   \<and> scheduledBatches toolsScheduledState = [([sampleRequest], 0)]
   \<and> abortControllerRef toolsScheduledState = None
   \<and> renderStreamingState executingRender = Responding
   \<and> turnCancelledRef (useInput (renderStreamingState executingRender) True toolsScheduledState)
   \<and> abortSignals (useInput (renderStreamingState executingRender) True toolsScheduledState)
       = [False]"
proof -
  have empty: "messageQueue idleRender = []"
    by (simp add: idleRender_def)
  have idle: "False \<or> renderStreamingState idleRender = Idle"
    by (simp add: idleRender_def renderStreamingState_def streamingState_def)
  have trimmed: "trim ''read it'' = ''read it''"
    by (simp add: trim_def isWhiteSpace_def)
  have run: "submitQuery sampleDeps idleRender toolWorld (Single (PartString ''read it'')) False
               initialState = Some toolsScheduledState"
    unfolding submitQuery_empty_queue[OF empty idle]
    by (simp add: startTurn_def newAbortController_def initialState_def toolWorld_def
        sampleInputs_def sampleDeps_def prepareQueryForGemini_def trimmed addItem_def
        tryStream_def processGeminiStreamEvents_def scheduleToolCalls_def
        finallyCleanup_def Let_def toolsScheduledState_def)
  have responding: "renderStreamingState executingRender = Responding"
    by (simp add: executingRender_def executingCall_def renderStreamingState_def
        streamingState_def)
  have left: "scheduledBatches toolsScheduledState = [([sampleRequest], 0)]"
    "abortControllerRef toolsScheduledState = None"
    "abortSignals toolsScheduledState = [False]"
    "\<not> turnCancelledRef toolsScheduledState"
    by (simp_all add: toolsScheduledState_def initialState_def)
  show ?thesis
    by (simp add: run responding useInput_cases left)
qed

text \<open>
  C9. The code falls short of the claim and of its own comment. The call made by the callback of an idle render with
  a non-empty queue does take the first step that the claim describes: it starts a
  turn, drops the head of the live queue and calls the callback again with the head of
  the render's queue in place of the caller's query. But the nested call is a call of
  the same callback, whose render still shows the idle state and the same queue, so it
  takes the same step again, and so on: the call never returns, and no entry is ever
  preprocessed or sent.
\<close>

theorem C9_queued_entry_never_processed:
  assumes "renderStreamingState r = Idle" and "messageQueue r \<noteq> []"
  shows "submitQuery d r world query False st = None"
  using assms by (rule submitQuery_idle_queued)

theorem C9_witness:
  "renderStreamingState queuedIdleRender = Idle
   \<and> messageQueue queuedIdleRender \<noteq> []
   \<and> submitQuery sampleDeps queuedIdleRender sampleWorld (Single (PartString ''b'')) False
        (initialState\<lparr>queueState := [''a'']\<rparr>) = None"
proof -
  have idle: "renderStreamingState queuedIdleRender = Idle"
    by (simp add: queuedIdleRender_def renderStreamingState_def streamingState_def)
  have queued: "messageQueue queuedIdleRender \<noteq> []"
    by (simp add: queuedIdleRender_def)
  from C9_queued_entry_never_processed[OF idle queued] idle queued
  show ?thesis by simp
qed

text \<open>
  C10. A \<^verbatim>\<open>Content\<close> event that is processed (the turn is not cancelled, so the event
  is not suppressed) while the pending item is not a model text item first appends the
  pending item, if there is one, to the history and makes a fresh model text item
  pending. The carried buffer is dropped: what is split, shown and carried on is the
  delta alone, whatever the buffer held.
\<close>

theorem C10_content_restarts_buffer:
  assumes live: "\<not> turnCancelledRef st"
    and other: "pendingType (pendingHistoryItemRef st) \<noteq> Some GEMINI"
               "pendingType (pendingHistoryItemRef st) \<noteq> Some GEMINI_CONTENT"
  shows "let flushedPending = (case pendingHistoryItemRef st of
                                 Some item \<Rightarrow> [(item, ts)] | None \<Rightarrow> []);
             index = findLastSafeSplitPoint d delta
         in handleContentEvent d delta currentBuffer ts st
              = (if index = int (length delta)
                 then (delta,
                       st\<lparr>pendingHistoryItemRef := Some (TextItem GEMINI delta),
                          history := history st @ flushedPending\<rparr>)
                 else (substring_from delta index,
                       st\<lparr>pendingHistoryItemRef :=
                            Some (TextItem GEMINI_CONTENT (substring_from delta index)),
                          history := history st @ flushedPending
                                     @ [(TextItem GEMINI (substring delta 0 index), ts)]\<rparr>))
            \<and> handleContentEvent d delta currentBuffer ts st
                = handleContentEvent d delta [] ts st"
  using live other
  by (cases "pendingHistoryItemRef st")
     (auto simp: handleContentEvent_def Let_def setPendingHistoryItem_def addItem_def
        currentPendingType_def)

theorem C10_witness:
  "\<not> turnCancelledRef toolGroupPendingState
   \<and> pendingType (pendingHistoryItemRef toolGroupPendingState) = Some TOOL_GROUP
   \<and> handleContentEvent sampleDeps ''Done'' ''stale text'' 7 toolGroupPendingState
       = (''Done'',
          toolGroupPendingState
            \<lparr>pendingHistoryItemRef := Some (TextItem GEMINI ''Done''),
             history := [(ToolGroupItem [sampleDisplay], 7)]\<rparr>)"
proof -
  have live: "\<not> turnCancelledRef toolGroupPendingState"
    by (simp add: toolGroupPendingState_def midTurnState_def initialState_def)
  have ptype: "pendingType (pendingHistoryItemRef toolGroupPendingState) = Some TOOL_GROUP"
    by (simp add: toolGroupPendingState_def pendingType_def)
  have other: "pendingType (pendingHistoryItemRef toolGroupPendingState) \<noteq> Some GEMINI"
    "pendingType (pendingHistoryItemRef toolGroupPendingState) \<noteq> Some GEMINI_CONTENT"
    by (simp_all add: ptype)
  have whole: "findLastSafeSplitPoint sampleDeps ''Done'' = 4"
    by (simp add: sampleDeps_def sampleSplitPoint_def)
  from C10_content_restarts_buffer[OF live other, where ts = 7 and d = sampleDeps
      and delta = "''Done''" and currentBuffer = "''stale text''"]
  show ?thesis
    using live ptype
    by (simp add: Let_def whole toolGroupPendingState_def midTurnState_def initialState_def)
qed

end
